theory Spec2Isabelle
  imports Complex_Main
begin

text \<open>
  A shallow embedding of the request pipeline of the MCP server for Neo4j: token
  estimate and truncation, the fixed-window rate limiter, the response sanitizer, the
  query validator with its regular expressions, the JSON-RPC protocol layer and tool
  handlers, the entry point of the tool-call endpoint, and the encryption of stored
  credentials. The definitions come first, each after the source function it embeds;
  the properties follow.
\<close>

section \<open>Texts\<close>

text \<open>
  A JavaScript string is a sequence of code units, and \<open>length\<close>, \<open>lastIndexOf\<close> and
  \<open>substring\<close> count code units. A text is modelled as a \<^typ>\<open>string\<close>, one
  \<^typ>\<open>char\<close> for each code unit, which covers the code units \<open>0x00\<close> to \<open>0xFF\<close>.
\<close>

definition newline :: char where
  "newline = CHR 0x0A"

definition space :: char where
  "space = CHR 0x20"

text \<open>
  \<open>text.lastIndexOf(ch, pos)\<close> for a one-character search string: the greatest index
  \<open>k\<close> with \<open>k \<le> max(pos, 0)\<close>, \<open>k < text.length\<close> and \<open>text[k] = ch\<close>, and \<open>-1\<close> when
  there is none. The helper scans downwards from \<open>k - 1\<close>.
\<close>

fun lastIndexFrom :: "string \<Rightarrow> char \<Rightarrow> nat \<Rightarrow> int" where
  "lastIndexFrom text ch 0 = -1"
| "lastIndexFrom text ch (Suc k) =
     (if k < length text \<and> text ! k = ch then int k else lastIndexFrom text ch k)"

definition lastIndexOf :: "string \<Rightarrow> char \<Rightarrow> int \<Rightarrow> int" where
  "lastIndexOf text ch pos = lastIndexFrom text ch (Suc (nat (max 0 pos)))"

text \<open>\<open>text.substring(0, end)\<close>: the end index is clamped to \<open>0 .. text.length\<close>.\<close>

definition substring0 :: "string \<Rightarrow> int \<Rightarrow> string" where
  "substring0 text e = take (nat (max 0 e)) text"

text \<open>
  \<open>String.prototype.toLowerCase\<close> on the modelled code units: the letters \<open>A\<close> to \<open>Z\<close> and
  the upper-case letters of \<open>0xC0 .. 0xDE\<close> (all but the multiplication sign \<open>0xD7\<close>) move
  up by \<open>0x20\<close>; every other unit stays.
\<close>

definition toLowerChar :: "char \<Rightarrow> char" where
  "toLowerChar c =
     (let n = (of_char c :: nat) in
      if (65 \<le> n \<and> n \<le> 90) \<or> (192 \<le> n \<and> n \<le> 222 \<and> n \<noteq> 215)
      then char_of (n + 32) else c)"

definition toLowerCase :: "string \<Rightarrow> string" where
  "toLowerCase s = map toLowerChar s"

definition startsWith :: "string \<Rightarrow> string \<Rightarrow> bool" where
  "startsWith s pat = (take (length pat) s = pat)"

text \<open>\<open>s.includes(pat)\<close>: \<open>pat\<close> occurs in \<open>s\<close> at some index.\<close>

fun includes_str :: "string \<Rightarrow> string \<Rightarrow> bool" where
  "includes_str [] pat = (pat = [])"
| "includes_str (c # cs) pat = (startsWith (c # cs) pat \<or> includes_str cs pat)"

text \<open>The decimal numeral of a non-negative whole number, as a template literal prints it.\<close>

definition digit_char :: "nat \<Rightarrow> char" where
  "digit_char d = char_of (48 + d)"

function show_nat :: "nat \<Rightarrow> string" where
  "show_nat n =
     (if n < 10 then [digit_char n] else show_nat (n div 10) @ [digit_char (n mod 10)])"
  by pat_completeness auto
termination
  by (relation "measure id") auto

declare show_nat.simps [simp del]

section \<open>Token estimate and truncation\<close>

record TokenOptions =
  charsPerToken :: nat
  maxTokens :: int
  truncationSuffix :: string

definition DEFAULT_OPTIONS :: TokenOptions where
  "DEFAULT_OPTIONS =
     \<lparr> charsPerToken = 4,
       maxTokens = 10000,
       truncationSuffix = newline # newline # ''...[Response truncated due to token limit]'' \<rparr>"

text \<open>
  \<open>estimateTokens\<close>: \<open>0\<close> for the empty text, otherwise \<open>Math.ceil(text.length / charsPerToken)\<close>.
  The ratio is a positive whole number in every caller; the quotient is written with
  natural-number division, which is the ceiling for a positive ratio.
\<close>

definition estimateTokens :: "string \<Rightarrow> nat \<Rightarrow> int" where
  "estimateTokens text cpt =
     (if text = [] then 0 else int ((length text + cpt - 1) div cpt))"

record TruncateResult =
  text' :: string
  truncated :: bool
  originalTokens :: int
  finalTokens :: int

definition truncateToTokens :: "string \<Rightarrow> TokenOptions \<Rightarrow> TruncateResult" where
  "truncateToTokens txt mergedOptions =
     (let originalTokens = estimateTokens txt (charsPerToken mergedOptions) in
      if originalTokens \<le> maxTokens mergedOptions then
        \<lparr> text' = txt, truncated = False,
          originalTokens = originalTokens, finalTokens = originalTokens \<rparr>
      else
        let suffixTokens = estimateTokens (truncationSuffix mergedOptions) (charsPerToken mergedOptions);
            availableTokens = maxTokens mergedOptions - suffixTokens;
            maxChars = availableTokens * int (charsPerToken mergedOptions);
            lastNewline = lastIndexOf txt newline maxChars;
            truncateAt =
              (if lastNewline > maxChars - 100 \<and> lastNewline > 0 then lastNewline
               else
                 let lastSpace = lastIndexOf txt space maxChars in
                 if lastSpace > maxChars - 50 \<and> lastSpace > 0 then lastSpace else maxChars);
            truncatedText = substring0 txt truncateAt @ truncationSuffix mergedOptions;
            finalTokens = estimateTokens truncatedText (charsPerToken mergedOptions)
        in \<lparr> text' = truncatedText, truncated = True,
             originalTokens = originalTokens, finalTokens = finalTokens \<rparr>)"

section \<open>Rate limiter\<close>

text \<open>
  The key-value namespace is external; the limiter uses \<open>get(key, 'json')\<close> and
  \<open>put(key, value, {expirationTtl})\<close>. The store is a map from keys to the stored record
  and the second at which it expires. Under a rate key the store holds what the limiter
  wrote, so the JSON text of a record is identified with the record.
  What the surroundings do during one call is an argument of the call: the two readings
  of the clock (\<open>Date.now()\<close>, in milliseconds) and whether \<open>get\<close> or \<open>put\<close> throws.
\<close>

record RateLimitEntry =
  count :: int
  window :: int

record RateLimitConfig =
  maxRequests :: int
  windowSeconds :: int

record RateLimitResult =
  allowed :: bool
  current :: int
  limit :: int
  resetIn :: int
  remaining :: int

type_synonym kv_store = "string \<rightharpoonup> (RateLimitEntry \<times> int)"

record call_env =
  clock1 :: int
  clock2 :: int
  get_throws :: bool
  put_throws :: bool

datatype kv_error = KVError

definition kv_get :: "kv_store \<Rightarrow> string \<Rightarrow> call_env \<Rightarrow> kv_error + RateLimitEntry option" where
  "kv_get kv key env =
     (if get_throws env then Inl KVError
      else case kv key of
             None \<Rightarrow> Inr None
           | Some (entry, expires) \<Rightarrow>
               if clock1 env div 1000 < expires then Inr (Some entry) else Inr None)"

definition kv_put :: "kv_store \<Rightarrow> string \<Rightarrow> RateLimitEntry \<Rightarrow> int \<Rightarrow> call_env \<Rightarrow> kv_error + kv_store" where
  "kv_put kv key entry expirationTtl env =
     (if put_throws env then Inl KVError
      else Inr (kv(key \<mapsto> (entry, clock1 env div 1000 + expirationTtl))))"

definition DEFAULT_CONFIG :: RateLimitConfig where
  "DEFAULT_CONFIG = \<lparr> maxRequests = 100, windowSeconds = 60 \<rparr>"

definition getRateLimitKey :: "string \<Rightarrow> string" where
  "getRateLimitKey identifier = ''rate:'' @ identifier"

text \<open>
  \<open>getCurrentWindow\<close>, given the clock reading: \<open>Math.floor\<close> of a quotient of whole
  numbers is \<open>div\<close> on \<^typ>\<open>int\<close> for a positive window length.
\<close>

definition getCurrentWindow :: "int \<Rightarrow> int \<Rightarrow> int" where
  "getCurrentWindow windowSecs nowMs =
     (let now = nowMs div 1000 in (now div windowSecs) * windowSecs)"

definition checkRateLimit ::
  "kv_store \<Rightarrow> string \<Rightarrow> RateLimitConfig \<Rightarrow> call_env \<Rightarrow> RateLimitResult \<times> kv_store" where
  "checkRateLimit kv identifier config env =
     (let key = getRateLimitKey identifier;
          currentWindow = getCurrentWindow (windowSeconds config) (clock1 env);
          onError =
            (\<lparr> allowed = True, current = 0, limit = maxRequests config,
               resetIn = windowSeconds config, remaining = maxRequests config \<rparr>, kv)
      in case kv_get kv key env of
           Inl _ \<Rightarrow> onError
         | Inr existing \<Rightarrow>
             let cnt = (case existing of
                          None \<Rightarrow> 1
                        | Some e \<Rightarrow> if window e = currentWindow then count e + 1 else 1);
                 isAllowed = (cnt \<le> maxRequests config);
                 written =
                   (if isAllowed
                    then kv_put kv key \<lparr> count = cnt, window = currentWindow \<rparr>
                           (windowSeconds config * 2) env
                    else Inr kv)
             in case written of
                  Inl _ \<Rightarrow> onError
                | Inr kv' \<Rightarrow>
                    let windowEnd = currentWindow + windowSeconds config;
                        now = clock2 env div 1000;
                        reset = max 0 (windowEnd - now)
                    in (\<lparr> allowed = isAllowed, current = cnt, limit = maxRequests config,
                          resetIn = reset,
                          remaining = max 0 (maxRequests config - cnt) \<rparr>, kv'))"

section \<open>Values\<close>

text \<open>
  A JavaScript value as the sanitizer and the protocol layer tell values apart: by
  \<open>typeof\<close>, \<open>Array.isArray\<close>, \<open>=== null\<close> and \<open>=== undefined\<close>. A number is \<open>NaN\<close>, an
  infinity or the real number a finite double denotes. An object is the list of its own
  enumerable entries in the order of \<open>Object.entries\<close>. \<open>JOther\<close> stands for the remaining
  types (function, symbol, bigint).
\<close>

datatype jsnumber = NaN | PosInfinity | NegInfinity | Finite real

datatype jsval =
    JUndefined
  | JNull
  | JBool bool
  | JNum jsnumber
  | JStr string
  | JArr "jsval list"
  | JObj "(string \<times> jsval) list"
  | JOther

text \<open>
  The assignment \<open>obj[key] = v\<close> on an object created by \<open>{}\<close>: an existing entry is
  overwritten in place and a new one is appended. The key \<open>__proto__\<close> is the accessor
  inherited from \<open>Object.prototype\<close>: assigning to it never creates an own entry.
\<close>

definition obj_assign :: "(string \<times> jsval) list \<Rightarrow> string \<Rightarrow> jsval \<Rightarrow> (string \<times> jsval) list" where
  "obj_assign obj key v =
     (if key = ''__proto__'' then obj
      else if key \<in> fst ` set obj
      then map (\<lambda>(k, w). if k = key then (k, v) else (k, w)) obj
      else obj @ [(key, v)])"

section \<open>Sanitizer\<close>

text \<open>The options after merging with the defaults; sizes and depths are whole numbers.\<close>

record SanitizeOptions =
  maxListSize :: nat
  removeEmbeddings :: bool
  removeNulls :: bool
  maxStringLength :: nat
  maxDepth :: nat

definition DEFAULT_SANITIZE_OPTIONS :: SanitizeOptions where
  "DEFAULT_SANITIZE_OPTIONS =
     \<lparr> maxListSize = 128, removeEmbeddings = True, removeNulls = True,
       maxStringLength = 0, maxDepth = 20 \<rparr>"

text \<open>\<open>typeof value === 'number' && !Number.isNaN(value)\<close>\<close>

definition isNumeric :: "jsval \<Rightarrow> bool" where
  "isNumeric v = (case v of JNum n \<Rightarrow> n \<noteq> NaN | _ \<Rightarrow> False)"

text \<open>
  \<open>isEmbeddingArray\<close>. The last line compares \<open>numericCount >= sampleSize * 0.8\<close>; both
  sides are multiplied by ten here.
\<close>

definition isEmbeddingArray :: "jsval list \<Rightarrow> bool" where
  "isEmbeddingArray arr =
     (if length arr < 64 then False
      else let sampleSize = min 10 (length arr);
               numericCount = length (filter isNumeric (take sampleSize arr))
           in numericCount * 10 \<ge> sampleSize * 8)"

definition isEmbeddingKey :: "string \<Rightarrow> bool" where
  "isEmbeddingKey key =
     (let lowerKey = toLowerCase key in
      list_ex (\<lambda>pattern. includes_str lowerKey pattern)
        [''embedding'', ''embeddings'', ''vector'', ''vectors'', ''embed'',
         ''encoding'', ''encodings'', ''feature_vector'', ''featurevector''])"

function sanitizeValue :: "jsval \<Rightarrow> SanitizeOptions \<Rightarrow> nat \<Rightarrow> jsval" where
  "sanitizeValue v options depth =
     (if depth > maxDepth options then JStr ''[Max depth exceeded]''
      else case v of
        JUndefined \<Rightarrow> (if removeNulls options then JUndefined else v)
      | JNull \<Rightarrow> (if removeNulls options then JUndefined else v)
      | JStr s \<Rightarrow>
          (if maxStringLength options > 0 \<and> length s > maxStringLength options
           then JStr (take (maxStringLength options) s @ ''...[truncated]'')
           else v)
      | JNum _ \<Rightarrow> v
      | JBool _ \<Rightarrow> v
      | JArr items \<Rightarrow>
          (if removeEmbeddings options \<and> isEmbeddingArray items
           then JStr (''[Embedding array with '' @ show_nat (length items)
                      @ '' dimensions - filtered]'')
           else if length items > maxListSize options
           then JArr (filter (\<lambda>item. item \<noteq> JUndefined)
                        (map (\<lambda>item. sanitizeValue item options (depth + 1))
                           (take (maxListSize options) items))
                      @ [JStr (''...['' @ show_nat (length items - maxListSize options)
                               @ '' more items truncated]'')])
           else JArr (filter (\<lambda>item. item \<noteq> JUndefined)
                        (map (\<lambda>item. sanitizeValue item options (depth + 1)) items)))
      | JObj entries \<Rightarrow>
          JObj (fold (\<lambda>kv result.
                  if removeEmbeddings options \<and> isEmbeddingKey (fst kv)
                  then obj_assign result (fst kv) (JStr ''[Embedding property - filtered]'')
                  else let sanitized = sanitizeValue (snd kv) options (depth + 1)
                       in if sanitized \<noteq> JUndefined
                          then obj_assign result (fst kv) sanitized
                          else result)
                entries [])
      | JOther \<Rightarrow> v)"
  by pat_completeness auto
termination
proof (relation "measure (\<lambda>(v, opts, d). size v)", goal_cases)
  case 1
  show ?case by simp
next
  case (2 v options depth items x)
  then have "x \<in> set items" by (meson in_set_takeD)
  then have "size x \<le> size_list size items" by (rule size_list_estimation') simp
  with 2 show ?case by simp
next
  case (3 v options depth items x)
  then have "x \<in> set items" by simp
  then have "size x \<le> size_list size items" by (rule size_list_estimation') simp
  with 3 show ?case by simp
next
  case (4 v options depth entries x)
  have "size (snd x) \<le> size_prod (\<lambda>x. 0) size x" by (cases x) simp
  moreover from 4 have "x \<in> set entries" by simp
  ultimately have "size (snd x) \<le> size_list (size_prod (\<lambda>x. 0) size) entries"
    by (rule_tac size_list_estimation')
  with 4 show ?case by simp
qed

declare sanitizeValue.simps [simp del]

text \<open>\<open>sanitize(data, options)\<close> with the options already merged over the defaults.\<close>

definition sanitize :: "jsval \<Rightarrow> SanitizeOptions \<Rightarrow> jsval" where
  "sanitize data mergedOptions = sanitizeValue data mergedOptions 0"

section \<open>Regular expressions\<close>

text \<open>
  The patterns of the source are JavaScript regular expressions without the \<open>u\<close> flag.
  The constructs they use are modelled by a backtracking matcher: \<open>rx_match\<close> lists the
  end positions of the matches that start at a position, in the order in which
  backtracking tries them (a greedy loop the longest first, a lazy one the shortest
  first). Every loop of the source's patterns runs over a single character class, so a
  loop takes a class. Character classes are for the modelled code units: \<open>\s\<close> is tab,
  line feed, vertical tab, form feed, carriage return, space and no-break space; \<open>.\<close>
  excludes line feed and carriage return; \<open>\w\<close> and \<open>\b\<close> know the ASCII letters, the
  digits and the underscore. Under the \<open>i\<close> flag two units match when their upper-case
  forms agree (\<open>Canonicalize\<close>; the upper-case forms of \<open>0xFF\<close> and \<open>0xB5\<close> lie outside
  the modelled units and are given by their code points).
\<close>

definition isSpace :: "char \<Rightarrow> bool" where
  "isSpace c = (let n = (of_char c :: nat) in (9 \<le> n \<and> n \<le> 13) \<or> n = 32 \<or> n = 160)"

definition isLineTerminator :: "char \<Rightarrow> bool" where
  "isLineTerminator c = (let n = (of_char c :: nat) in n = 10 \<or> n = 13)"

definition isDigit :: "char \<Rightarrow> bool" where
  "isDigit c = (let n = (of_char c :: nat) in 48 \<le> n \<and> n \<le> 57)"

definition isAsciiLetter :: "char \<Rightarrow> bool" where
  "isAsciiLetter c =
     (let n = (of_char c :: nat) in (65 \<le> n \<and> n \<le> 90) \<or> (97 \<le> n \<and> n \<le> 122))"

definition isWordChar :: "char \<Rightarrow> bool" where
  "isWordChar c = (isAsciiLetter c \<or> isDigit c \<or> c = CHR ''_'')"

definition canonicalize :: "char \<Rightarrow> nat" where
  "canonicalize c =
     (let n = (of_char c :: nat) in
      if (97 \<le> n \<and> n \<le> 122) \<or> (224 \<le> n \<and> n \<le> 254 \<and> n \<noteq> 247) then n - 32
      else if n = 255 then 376
      else if n = 181 then 924
      else n)"

record flags =
  ignoreCase :: bool
  multiline :: bool

datatype regex =
    Eps
  | Chr char
  | Cls "char \<Rightarrow> bool"
  | Star "char \<Rightarrow> bool"
  | LazyStar "char \<Rightarrow> bool"
  | Plus "char \<Rightarrow> bool"
  | Opt regex
  | Seq regex regex
  | Alt regex regex
  | NotAhead regex
  | WordBoundary
  | LineStart
  | LineEnd

definition sameChar :: "flags \<Rightarrow> char \<Rightarrow> char \<Rightarrow> bool" where
  "sameChar fl c ch = (if ignoreCase fl then canonicalize c = canonicalize ch else c = ch)"

text \<open>The number of consecutive units of a class from a position on.\<close>

definition run :: "(char \<Rightarrow> bool) \<Rightarrow> string \<Rightarrow> nat \<Rightarrow> nat" where
  "run P s i = length (takeWhile P (drop i s))"

definition wordAt :: "string \<Rightarrow> nat \<Rightarrow> bool" where
  "wordAt s i = (i < length s \<and> isWordChar (s ! i))"

fun rx_match :: "flags \<Rightarrow> regex \<Rightarrow> string \<Rightarrow> nat \<Rightarrow> nat list" where
  "rx_match fl Eps s i = [i]"
| "rx_match fl (Chr c) s i = (if i < length s \<and> sameChar fl c (s ! i) then [i + 1] else [])"
| "rx_match fl (Cls P) s i = (if i < length s \<and> P (s ! i) then [i + 1] else [])"
| "rx_match fl (Star P) s i = rev [i ..< i + run P s i + 1]"
| "rx_match fl (LazyStar P) s i = [i ..< i + run P s i + 1]"
| "rx_match fl (Plus P) s i = rev [i + 1 ..< i + run P s i + 1]"
| "rx_match fl (Opt r) s i = rx_match fl r s i @ [i]"
| "rx_match fl (Seq a b) s i = concat (map (\<lambda>j. rx_match fl b s j) (rx_match fl a s i))"
| "rx_match fl (Alt a b) s i = rx_match fl a s i @ rx_match fl b s i"
| "rx_match fl (NotAhead r) s i = (if rx_match fl r s i = [] then [i] else [])"
| "rx_match fl WordBoundary s i =
     (if (i > 0 \<and> wordAt s (i - 1)) \<noteq> wordAt s i then [i] else [])"
| "rx_match fl LineStart s i =
     (if i = 0 \<or> (multiline fl \<and> i \<le> length s \<and> isLineTerminator (s ! (i - 1)))
      then [i] else [])"
| "rx_match fl LineEnd s i =
     (if i = length s \<or> (multiline fl \<and> i < length s \<and> isLineTerminator (s ! i))
      then [i] else [])"

text \<open>
  \<open>exec\<close> without the \<open>g\<close> flag: the leftmost start position that has a match, with the
  end position backtracking finds first. \<open>test\<close> asks whether there is one.
\<close>

definition rx_exec :: "flags \<Rightarrow> regex \<Rightarrow> string \<Rightarrow> (nat \<times> nat) option" where
  "rx_exec fl r s =
     (case filter (\<lambda>i. rx_match fl r s i \<noteq> []) [0 ..< length s + 1] of
        [] \<Rightarrow> None
      | i # _ \<Rightarrow> Some (i, hd (rx_match fl r s i)))"

definition rx_test :: "flags \<Rightarrow> regex \<Rightarrow> string \<Rightarrow> bool" where
  "rx_test fl r s = (rx_exec fl r s \<noteq> None)"

text \<open>
  \<open>s.replace(r, rep)\<close> with the \<open>g\<close> flag and a replacement text without \<open>$\<close>: the
  matches are found from left to right, each search starting where the previous match
  ended (one unit further after an empty match).
\<close>

function rx_replace_from :: "flags \<Rightarrow> regex \<Rightarrow> string \<Rightarrow> string \<Rightarrow> nat \<Rightarrow> string" where
  "rx_replace_from fl r rep s i =
     (if i > length s then []
      else case rx_match fl r s i of
          [] \<Rightarrow> (if i < length s then s ! i # rx_replace_from fl r rep s (i + 1) else [])
        | e # _ \<Rightarrow>
            if e > i then rep @ rx_replace_from fl r rep s e
            else rep @ (if i < length s then s ! i # rx_replace_from fl r rep s (i + 1)
                        else []))"
  by pat_completeness auto
termination
  by (relation "measure (\<lambda>(fl, r, rep, s, i). length s + 1 - i)") auto

declare rx_replace_from.simps [simp del]

definition rx_replace_all :: "flags \<Rightarrow> regex \<Rightarrow> string \<Rightarrow> string \<Rightarrow> string" where
  "rx_replace_all fl r rep s = rx_replace_from fl r rep s 0"

text \<open>\<open>String.prototype.trim\<close>: white space and line terminators go from both ends.\<close>

definition trim :: "string \<Rightarrow> string" where
  "trim s = rev (dropWhile isSpace (rev (dropWhile isSpace s)))"

text \<open>Writing patterns: a sequence, a literal word, an alternation, keywords between \<open>\b\<close>.\<close>

definition seqs :: "regex list \<Rightarrow> regex" where
  "seqs rs = foldr Seq rs Eps"

definition lit :: "string \<Rightarrow> regex" where
  "lit w = seqs (map Chr w)"

fun alts :: "regex list \<Rightarrow> regex" where
  "alts [] = NotAhead Eps"
| "alts [r] = r"
| "alts (r # rs) = Alt r (alts rs)"

definition kw :: "string \<Rightarrow> regex" where
  "kw a = seqs [WordBoundary, lit a, WordBoundary]"

definition kw2 :: "string \<Rightarrow> string \<Rightarrow> regex" where
  "kw2 a b = seqs [WordBoundary, lit a, Plus isSpace, lit b, WordBoundary]"

definition flags_i :: flags where
  "flags_i = \<lparr> ignoreCase = True, multiline = False \<rparr>"

definition flags_gm :: flags where
  "flags_gm = \<lparr> ignoreCase = False, multiline = True \<rparr>"

definition flags_none :: flags where
  "flags_none = \<lparr> ignoreCase = False, multiline = False \<rparr>"

section \<open>Query validator\<close>

datatype query_type = ReadQuery | WriteQuery | AdminQuery | UnknownQuery

text \<open>A verdict: whether the check passed, and the message when it did not.\<close>

record CheckResult =
  valid :: bool
  error :: "string option"

record QueryValidationResult = CheckResult +
  warnings :: "string list"
  queryType :: query_type

definition re_CREATE_DATABASE :: regex where "re_CREATE_DATABASE = kw2 ''CREATE'' ''DATABASE''"
definition re_DROP_DATABASE :: regex where "re_DROP_DATABASE = kw2 ''DROP'' ''DATABASE''"
definition re_STOP_DATABASE :: regex where "re_STOP_DATABASE = kw2 ''STOP'' ''DATABASE''"
definition re_START_DATABASE :: regex where "re_START_DATABASE = kw2 ''START'' ''DATABASE''"
definition re_CREATE_USER :: regex where "re_CREATE_USER = kw2 ''CREATE'' ''USER''"
definition re_DROP_USER :: regex where "re_DROP_USER = kw2 ''DROP'' ''USER''"
definition re_ALTER_USER :: regex where "re_ALTER_USER = kw2 ''ALTER'' ''USER''"
definition re_CREATE_ROLE :: regex where "re_CREATE_ROLE = kw2 ''CREATE'' ''ROLE''"
definition re_DROP_ROLE :: regex where "re_DROP_ROLE = kw2 ''DROP'' ''ROLE''"
definition re_GRANT :: regex where "re_GRANT = kw ''GRANT''"
definition re_REVOKE :: regex where "re_REVOKE = kw ''REVOKE''"
definition re_DENY :: regex where "re_DENY = kw ''DENY''"
definition re_DETACH_DELETE :: regex where "re_DETACH_DELETE = kw2 ''DETACH'' ''DELETE''"

definition re_CALL_block :: regex where
  "re_CALL_block = seqs [WordBoundary, lit ''CALL'', Plus isSpace, Chr CHR ''{'']"

definition re_CALL_dbms :: regex where
  "re_CALL_dbms = seqs [WordBoundary, lit ''CALL'', Plus isSpace, lit ''dbms.'']"

definition re_CALL_db :: regex where
  "re_CALL_db =
     seqs [WordBoundary, lit ''CALL'', Plus isSpace, lit ''db.'',
           NotAhead (alts [lit ''labels'', lit ''relationshipTypes'', lit ''propertyKeys'',
                           lit ''schema''])]"

definition re_LOAD_CSV_remote :: regex where
  "re_LOAD_CSV_remote =
     seqs [WordBoundary, lit ''LOAD'', Plus isSpace, lit ''CSV'', Plus isSpace, lit ''FROM'',
           Plus isSpace, Cls (\<lambda>c. c = CHR 0x27 \<or> c = CHR 0x22),
           lit ''http'', Opt (Chr CHR ''s''), Chr CHR '':'']"

definition DANGEROUS_OPERATIONS :: "(regex \<times> string) list" where
  "DANGEROUS_OPERATIONS =
     [(re_CREATE_DATABASE, ''CREATE DATABASE is not allowed''),
      (re_DROP_DATABASE, ''DROP DATABASE is not allowed''),
      (re_STOP_DATABASE, ''STOP DATABASE is not allowed''),
      (re_START_DATABASE, ''START DATABASE is not allowed''),
      (re_CREATE_USER, ''CREATE USER is not allowed''),
      (re_DROP_USER, ''DROP USER is not allowed''),
      (re_ALTER_USER, ''ALTER USER is not allowed''),
      (re_CREATE_ROLE, ''CREATE ROLE is not allowed''),
      (re_DROP_ROLE, ''DROP ROLE is not allowed''),
      (re_GRANT, ''GRANT is not allowed''),
      (re_REVOKE, ''REVOKE is not allowed''),
      (re_DENY, ''DENY is not allowed''),
      (re_DETACH_DELETE, ''DETACH DELETE is potentially dangerous - use with caution''),
      (re_CALL_block, ''Subquery CALL blocks may be restricted''),
      (re_CALL_dbms, ''System DBMS procedures are not allowed''),
      (re_CALL_db, ''Most db.* procedures are not allowed''),
      (re_LOAD_CSV_remote, ''LOAD CSV from remote URLs is not allowed'')]"

definition WRITE_OPERATIONS :: "regex list" where
  "WRITE_OPERATIONS =
     [kw ''CREATE'', kw ''MERGE'', kw ''DELETE'', kw ''SET'', kw ''REMOVE'', kw ''FOREACH'']"

definition ADMIN_OPERATIONS :: "regex list" where
  "ADMIN_OPERATIONS =
     [seqs [WordBoundary, lit ''CREATE'', Plus isSpace,
            alts [lit ''INDEX'', lit ''CONSTRAINT'', lit ''DATABASE'', lit ''USER'', lit ''ROLE''],
            WordBoundary],
      seqs [WordBoundary, lit ''DROP'', Plus isSpace,
            alts [lit ''INDEX'', lit ''CONSTRAINT'', lit ''DATABASE'', lit ''USER'', lit ''ROLE''],
            WordBoundary],
      kw ''ALTER'', kw ''GRANT'', kw ''REVOKE'']"

definition re_unbounded_MATCH :: regex where
  "re_unbounded_MATCH =
     seqs [lit ''MATCH'', Plus isSpace, Chr CHR ''('', Star (\<lambda>c. c \<noteq> CHR '')''),
           Chr CHR '')'', Star isSpace,
           NotAhead (alts [lit ''WHERE'', lit ''RETURN'', Chr CHR ''-''])]"

definition re_LIMIT :: regex where
  "re_LIMIT = seqs [WordBoundary, lit ''LIMIT'', Plus isSpace, Plus isDigit]"

definition MAX_QUERY_LENGTH :: nat where
  "MAX_QUERY_LENGTH = 50000"

definition re_line_comment :: regex where
  "re_line_comment = seqs [lit ''//'', Star (\<lambda>c. \<not> isLineTerminator c), LineEnd]"

definition re_block_comment :: regex where
  "re_block_comment = seqs [lit ''/*'', LazyStar (\<lambda>c. True), lit ''*/'']"

definition removeComments :: "string \<Rightarrow> string" where
  "removeComments query =
     (let result = rx_replace_all flags_gm re_line_comment [] query
      in rx_replace_all flags_none re_block_comment [] result)"

definition detectQueryType :: "string \<Rightarrow> query_type" where
  "detectQueryType query =
     (if list_ex (\<lambda>pattern. rx_test flags_i pattern query) ADMIN_OPERATIONS then AdminQuery
      else if list_ex (\<lambda>pattern. rx_test flags_i pattern query) WRITE_OPERATIONS then WriteQuery
      else if rx_test flags_i
                (seqs [WordBoundary,
                       alts [lit ''MATCH'', lit ''RETURN'', lit ''WITH'', lit ''UNWIND'', lit ''CALL''],
                       WordBoundary]) query
      then ReadQuery
      else UnknownQuery)"

text \<open>The value of a run of decimal digits, as \<open>parseInt(digits, 10)\<close> reads it.\<close>

definition parseDigits :: "string \<Rightarrow> nat" where
  "parseDigits ds = foldl (\<lambda>acc d. acc * 10 + (of_char d - 48)) 0 ds"

text \<open>
  The two warning patterns. For the second the capture group is the run of digits at
  the end of the match.
\<close>

definition collectWarnings :: "string \<Rightarrow> string list" where
  "collectWarnings normalizedQuery =
     (if rx_test flags_i re_unbounded_MATCH normalizedQuery
      then [''Unbounded MATCH may return large results''] else [])
     @ (case rx_exec flags_i re_LIMIT normalizedQuery of
          None \<Rightarrow> []
        | Some (b, e) \<Rightarrow>
            let matched = take (e - b) (drop b normalizedQuery);
                group1 = rev (takeWhile isDigit (rev matched));
                lim = parseDigits group1
            in if lim > 10000 then [''Large LIMIT value may cause performance issues'']
               else [])"

definition validateQuery :: "string \<Rightarrow> QueryValidationResult" where
  "validateQuery query =
     (if length query > MAX_QUERY_LENGTH then
        \<lparr> valid = False,
          error = Some (''Query too long ('' @ show_nat (length query)
                        @ '' chars). Maximum allowed: '' @ show_nat MAX_QUERY_LENGTH),
          warnings = [], queryType = UnknownQuery \<rparr>
      else if trim query = [] then
        \<lparr> valid = False, error = Some ''Query cannot be empty'',
          warnings = [], queryType = UnknownQuery \<rparr>
      else
        let normalizedQuery = removeComments query in
        case find (\<lambda>(pattern, message). rx_test flags_i pattern normalizedQuery)
               DANGEROUS_OPERATIONS of
          Some (pattern, message) \<Rightarrow>
            \<lparr> valid = False, error = Some message, warnings = [], queryType = AdminQuery \<rparr>
        | None \<Rightarrow>
            \<lparr> valid = True, error = None, warnings = collectWarnings normalizedQuery,
              queryType = detectQueryType normalizedQuery \<rparr>)"

definition isReadOnlyQuery :: "string \<Rightarrow> bool" where
  "isReadOnlyQuery query =
     (let queryType = detectQueryType (removeComments query)
      in queryType = ReadQuery \<or> queryType = UnknownQuery)"

definition containsWriteOperations :: "string \<Rightarrow> bool" where
  "containsWriteOperations query =
     (let normalizedQuery = removeComments query
      in list_ex (\<lambda>pattern. rx_test flags_i pattern normalizedQuery) WRITE_OPERATIONS)"

text \<open>
  \<open>sanitizeParameters\<close>. The parameter map is absent (\<open>undefined\<close>) or the entries of an
  object. A value of another type than null, undefined, string, number, boolean, array
  or object is left out.
\<close>

definition re_param_key :: regex where
  "re_param_key =
     seqs [LineStart, Cls (\<lambda>c. isAsciiLetter c \<or> c = CHR ''_''), Star isWordChar, LineEnd]"

definition sanitizeParameters :: "(string \<times> jsval) list option \<Rightarrow> (string \<times> jsval) list option" where
  "sanitizeParameters params =
     (case params of
        None \<Rightarrow> None
      | Some entries \<Rightarrow>
          let sanitized =
                fold (\<lambda>(key, v) acc.
                        if \<not> rx_test flags_none re_param_key key then acc
                        else if v \<noteq> JOther then obj_assign acc key v
                        else acc)
                  entries []
          in if length sanitized > 0 then Some sanitized else None)"

section \<open>Write detection and syntax check of the query layer\<close>

definition re_block_comment_q :: regex where
  "re_block_comment_q = seqs [lit ''/*'', LazyStar (\<lambda>c. True), lit ''*/'']"

definition re_whitespace_run :: regex where
  "re_whitespace_run = Plus isSpace"

definition writePatterns :: "regex list" where
  "writePatterns =
     [seqs [WordBoundary, lit ''create'', Cls isSpace],
      seqs [WordBoundary, lit ''merge'', Cls isSpace],
      seqs [WordBoundary, lit ''delete'', Cls isSpace],
      seqs [WordBoundary, lit ''detach'', Plus isSpace, lit ''delete'', Cls isSpace],
      seqs [WordBoundary, lit ''set'', Cls isSpace],
      seqs [WordBoundary, lit ''remove'', Cls isSpace],
      seqs [WordBoundary, lit ''drop'', Cls isSpace],
      seqs [WordBoundary, lit ''call'', Star isSpace, Chr CHR ''{'',
            Star (\<lambda>c. c \<noteq> CHR ''}''), WordBoundary,
            alts [lit ''create'', lit ''merge'', lit ''delete'', lit ''set'', lit ''remove''],
            WordBoundary],
      seqs [WordBoundary, lit ''foreach'', Star isSpace, Chr CHR ''('']]"

definition isWriteQuery :: "string \<Rightarrow> bool" where
  "isWriteQuery cypher =
     (let normalizedQuery =
            trim (rx_replace_all flags_none re_whitespace_run '' ''
                   (rx_replace_all flags_gm re_line_comment []
                     (rx_replace_all flags_none re_block_comment_q [] (toLowerCase cypher))))
      in list_ex (\<lambda>pattern. rx_test flags_none pattern normalizedQuery) writePatterns)"

text \<open>
  \<open>validateCypherSyntax\<close>: the loop over the characters keeps three counters and
  returns at the first character that makes one of them negative.
\<close>

fun countBrackets :: "string \<Rightarrow> int \<Rightarrow> int \<Rightarrow> int \<Rightarrow> CheckResult" where
  "countBrackets [] parenCount bracketCount braceCount =
     (if parenCount \<noteq> 0 then
        \<lparr> valid = False, error = Some ''Unbalanced parentheses in query'' \<rparr>
      else if bracketCount \<noteq> 0 then
        \<lparr> valid = False, error = Some ''Unbalanced square brackets in query'' \<rparr>
      else if braceCount \<noteq> 0 then
        \<lparr> valid = False, error = Some ''Unbalanced curly braces in query'' \<rparr>
      else \<lparr> valid = True, error = None \<rparr>)"
| "countBrackets (ch # rest) parenCount bracketCount braceCount =
     (let parenCount' = (if ch = CHR ''('' then parenCount + 1
                         else if ch = CHR '')'' then parenCount - 1 else parenCount);
          bracketCount' = (if ch = CHR ''['' then bracketCount + 1
                           else if ch = CHR '']'' then bracketCount - 1 else bracketCount);
          braceCount' = (if ch = CHR ''{'' then braceCount + 1
                         else if ch = CHR ''}'' then braceCount - 1 else braceCount)
      in if parenCount' < 0 \<or> bracketCount' < 0 \<or> braceCount' < 0 then
           \<lparr> valid = False, error = Some ''Unbalanced brackets in query'' \<rparr>
         else countBrackets rest parenCount' bracketCount' braceCount')"

definition validateCypherSyntax :: "string \<Rightarrow> CheckResult" where
  "validateCypherSyntax cypher =
     (let trimmed = trim cypher in
      if length trimmed = 0 then \<lparr> valid = False, error = Some ''Query cannot be empty'' \<rparr>
      else countBrackets trimmed 0 0 0)"

section \<open>Errors\<close>

datatype mcp_error =
    ParseError string
  | InvalidRequestError string
  | MethodNotFoundError string
  | InvalidParamsError string
  | InternalError string
  | Neo4jConnectionError string
  | Neo4jQueryError string
  | AuthenticationError string
  | RateLimitError int
  | ValidationError string


text \<open>What a \<open>throw\<close> carries: one of the typed errors, or any other error with its message.\<close>

datatype thrown = Mcp mcp_error | Plain string

fun toMcpError :: "thrown \<Rightarrow> mcp_error" where
  "toMcpError (Mcp e) = e"
| "toMcpError (Plain message) = InternalError message"

section \<open>Protocol\<close>

type_synonym js_object = "(string \<times> jsval) list"

text \<open>\<open>obj[name]\<close> for a name that \<open>Object.prototype\<close> does not define.\<close>

definition getProp :: "js_object \<Rightarrow> string \<Rightarrow> jsval" where
  "getProp obj name = (case map_of obj name of None \<Rightarrow> JUndefined | Some v \<Rightarrow> v)"

text \<open>\<open>typeof v === 'object'\<close> holds of objects, arrays and \<open>null\<close>.\<close>

definition typeofObject :: "jsval \<Rightarrow> bool" where
  "typeofObject v = (case v of JObj _ \<Rightarrow> True | JArr _ \<Rightarrow> True | JNull \<Rightarrow> True | _ \<Rightarrow> False)"

text \<open>\<open>!v\<close>\<close>

definition falsy :: "jsval \<Rightarrow> bool" where
  "falsy v =
     (case v of
        JUndefined \<Rightarrow> True
      | JNull \<Rightarrow> True
      | JBool b \<Rightarrow> \<not> b
      | JNum n \<Rightarrow> n = NaN \<or> n = Finite 0
      | JStr s \<Rightarrow> s = []
      | _ \<Rightarrow> False)"

record JsonRpcRequest =
  rpc_id :: jsval
  rpc_method :: string
  params :: jsval

definition parseJsonRpcRequest :: "jsval \<Rightarrow> mcp_error + JsonRpcRequest" where
  "parseJsonRpcRequest body =
     (case body of
        JObj request \<Rightarrow>
          if getProp request ''jsonrpc'' \<noteq> JStr ''2.0'' then
            Inl (InvalidRequestError ''Invalid JSON-RPC version. Must be \"2.0\"'')
          else
            (case getProp request ''method'' of
               JStr m \<Rightarrow>
                 if length m = 0 then
                   Inl (InvalidRequestError ''Method must be a non-empty string'')
                 else
                   let ident = getProp request ''id'';
                       ps = getProp request ''params''
                   in if ident \<noteq> JUndefined \<and> ident \<noteq> JNull
                         \<and> (case ident of JStr _ \<Rightarrow> False | JNum _ \<Rightarrow> False | _ \<Rightarrow> True)
                      then Inl (InvalidRequestError
                                  ''Request id must be a string, number, or null'')
                      else if ps \<noteq> JUndefined \<and> \<not> typeofObject ps
                      then Inl (InvalidParamsError ''Params must be an object or array'')
                      else Inr \<lparr> rpc_id = (if ident = JUndefined then JNull else ident),
                                 rpc_method = m, params = ps \<rparr>
             | _ \<Rightarrow> Inl (InvalidRequestError ''Method must be a non-empty string''))
      | _ \<Rightarrow> Inl (ParseError ''Request body must be a JSON object''))"

definition isNotification :: "JsonRpcRequest \<Rightarrow> bool" where
  "isNotification request = (rpc_id request = JNull \<or> rpc_id request = JUndefined)"

text \<open>
  The helpers below receive \<open>params\<close> typed as an object or \<open>undefined\<close>; the value the
  parser lets through can also be \<open>null\<close> or an array. \<open>propOf\<close> reads a named property
  of such a value: an array has no property of the names used.
\<close>

definition propOf :: "jsval \<Rightarrow> string \<Rightarrow> jsval" where
  "propOf v name = (case v of JObj obj \<Rightarrow> getProp obj name | _ \<Rightarrow> JUndefined)"

definition getOptionalNumberParam :: "jsval \<Rightarrow> string \<Rightarrow> jsnumber \<Rightarrow> mcp_error + jsnumber" where
  "getOptionalNumberParam ps name defaultValue =
     (if falsy ps \<or> propOf ps name = JUndefined then Inr defaultValue
      else case propOf ps name of
             JNum n \<Rightarrow> Inr n
           | _ \<Rightarrow> Inl (InvalidParamsError (''Parameter '' @ name @ '' must be a number'')))"

definition getOptionalObjectParam :: "jsval \<Rightarrow> string \<Rightarrow> mcp_error + js_object option" where
  "getOptionalObjectParam ps name =
     (if falsy ps \<or> propOf ps name = JUndefined then Inr None
      else case propOf ps name of
             JObj obj \<Rightarrow> Inr (Some obj)
           | _ \<Rightarrow> Inl (InvalidParamsError (''Parameter '' @ name @ '' must be an object'')))"

definition validateToolCallParams :: "jsval \<Rightarrow> mcp_error + (string \<times> jsval)" where
  "validateToolCallParams ps =
     (if falsy ps then Inl (InvalidParamsError ''Missing params for tools/call'')
      else case propOf ps ''name'' of
             JStr name \<Rightarrow>
               if length name = 0 then
                 Inl (InvalidParamsError ''Tool name must be a non-empty string'')
               else
                 let args = propOf ps ''arguments'' in
                 if args \<noteq> JUndefined \<and> (case args of JObj _ \<Rightarrow> False | _ \<Rightarrow> True)
                 then Inl (InvalidParamsError ''Tool arguments must be an object'')
                 else Inr (name, args)
           | _ \<Rightarrow> Inl (InvalidParamsError ''Tool name must be a non-empty string''))"

section \<open>Handlers\<close>

text \<open>
  The remote database is external. A client answers a query with the message of the
  error it throws or with its reply: for a read the rows after \<open>transformQueryResult\<close>,
  for a write the summary text and the counters. Every query handed to the client is
  appended to a log, so that a theorem can say that nothing was sent.
\<close>

record QueryResult =
  columns :: "string list"
  rows :: "jsval list"
  rowCount :: nat
  resultTruncated :: bool

record Neo4jClient =
  readReply :: "string \<Rightarrow> js_object option \<Rightarrow> string + QueryResult"
  writeReply :: "string \<Rightarrow> js_object option \<Rightarrow> string + (string \<times> jsval)"

type_synonym remote_log = "(string \<times> js_object option) list"

text \<open>
  What the handlers take from their surroundings besides the client: \<open>JSON.stringify\<close>
  with indentation \<open>2\<close>, and the text that the schema path (cache, extraction, sanitizing
  and formatting) produces for a sample size, or the message of the error it throws.
\<close>

record runtime =
  stringify :: "jsval \<Rightarrow> string"
  schemaText :: "jsnumber \<Rightarrow> string + string"

record HandlerContext =
  requestId :: string
  neo4jClient :: "Neo4jClient option"
  readOnly :: bool
  timeout :: "int option"
  tokenLimit :: "int option"
  schemaSampleSize :: "int option"
  userId :: "string option"
  connectionId :: "string option"

record McpToolResult =
  content :: string
  isError :: bool

definition createToolResult :: "string \<Rightarrow> bool \<Rightarrow> McpToolResult" where
  "createToolResult txt err = \<lparr> content = txt, isError = err \<rparr>"

definition TOOL_GET_SCHEMA :: string where "TOOL_GET_SCHEMA = ''get_neo4j_schema''"
definition TOOL_READ_CYPHER :: string where "TOOL_READ_CYPHER = ''read_neo4j_cypher''"
definition TOOL_WRITE_CYPHER :: string where "TOOL_WRITE_CYPHER = ''write_neo4j_cypher''"

definition toolExists :: "string \<Rightarrow> bool" where
  "toolExists name = (name = TOOL_GET_SCHEMA \<or> name = TOOL_READ_CYPHER \<or> name = TOOL_WRITE_CYPHER)"

definition getAllTools :: "bool \<Rightarrow> string list" where
  "getAllTools includeWriteTool =
     [TOOL_GET_SCHEMA, TOOL_READ_CYPHER] @ (if includeWriteTool then [TOOL_WRITE_CYPHER] else [])"

definition queryPreview :: "string \<Rightarrow> string" where
  "queryPreview query = take 100 query @ (if length query > 100 then ''...'' else [])"

definition noConnectionResult :: "runtime \<Rightarrow> (string \<times> jsval) \<Rightarrow> McpToolResult" where
  "noConnectionResult rt extra =
     createToolResult
       (stringify rt (JObj [(''error'', JStr ''No Neo4j connection configured''),
                            (''message'', JStr ''Please configure your Neo4j connection via the setup endpoint first.''),
                            extra]))
       True"

definition failureResult :: "runtime \<Rightarrow> string \<Rightarrow> string \<Rightarrow> js_object \<Rightarrow> McpToolResult" where
  "failureResult rt title message extra =
     createToolResult
       (stringify rt (JObj ([(''error'', JStr title), (''message'', JStr message)] @ extra)))
       True"

text \<open>
  \<open>sanitizeNeo4jResults\<close> with the default options. The branch for rows that carry
  \<open>properties\<close> copies the sanitized object into a fresh one, which has the same entries.
\<close>

definition sanitizeNeo4jResults :: "jsval list \<Rightarrow> jsval list" where
  "sanitizeNeo4jResults rs =
     filter (\<lambda>row. row \<noteq> JUndefined)
       (map (\<lambda>row. sanitizeValue row DEFAULT_SANITIZE_OPTIONS 0) rs)"

definition executeReadQuery ::
  "Neo4jClient \<Rightarrow> string \<Rightarrow> js_object option \<Rightarrow> remote_log \<Rightarrow> (string + QueryResult) \<times> remote_log" where
  "executeReadQuery client cypher ps sent =
     (if isWriteQuery cypher then
        (Inl ''This query contains write operations. Use executeWriteQuery for CREATE, MERGE, DELETE, SET, or REMOVE operations.'',
         sent)
      else (readReply client cypher ps, sent @ [(cypher, ps)]))"

definition executeWriteQuery ::
  "Neo4jClient \<Rightarrow> string \<Rightarrow> js_object option \<Rightarrow> remote_log
     \<Rightarrow> (string + (string \<times> jsval)) \<times> remote_log" where
  "executeWriteQuery client cypher ps sent = (writeReply client cypher ps, sent @ [(cypher, ps)])"

definition executeGetSchema ::
  "jsval \<Rightarrow> HandlerContext \<Rightarrow> runtime \<Rightarrow> mcp_error + McpToolResult" where
  "executeGetSchema args context rt =
     (case getOptionalNumberParam args ''sample_size''
             (case schemaSampleSize context of Some n \<Rightarrow> Finite (real_of_int n)
                                             | None \<Rightarrow> Finite 1000) of
        Inl e \<Rightarrow> Inl e
      | Inr sampleSize \<Rightarrow>
          (case neo4jClient context of
             None \<Rightarrow> Inr (noConnectionResult rt (''setupUrl'', JStr ''/setup''))
           | Some client \<Rightarrow>
               (case schemaText rt sampleSize of
                  Inl message \<Rightarrow> Inr (failureResult rt ''Schema extraction failed'' message [])
                | Inr formattedSchema \<Rightarrow>
                    let limit = (case tokenLimit context of Some l \<Rightarrow> l | None \<Rightarrow> 10000);
                        tokenResult = truncateToTokens formattedSchema
                                        (DEFAULT_OPTIONS\<lparr>maxTokens := limit\<rparr>)
                    in Inr (createToolResult (text' tokenResult) False))))"

definition executeReadCypher ::
  "jsval \<Rightarrow> HandlerContext \<Rightarrow> runtime \<Rightarrow> remote_log
     \<Rightarrow> (mcp_error + McpToolResult) \<times> remote_log" where
  "executeReadCypher args context rt sent =
     (case (if falsy args then JUndefined else propOf args ''query'') of
        JStr query \<Rightarrow>
          (case getOptionalObjectParam args ''params'' of
             Inl e \<Rightarrow> (Inl e, sent)
           | Inr rawParams \<Rightarrow>
               let securityCheck = validateQuery query in
               if \<not> valid securityCheck then
                 (Inl (ValidationError
                         (case error securityCheck of
                            Some e \<Rightarrow> e
                          | None \<Rightarrow> ''Query blocked for security reasons'')), sent)
               else
                 let ps = sanitizeParameters rawParams;
                     syntaxCheck = validateCypherSyntax query
                 in
                 if \<not> valid syntaxCheck then
                   (Inl (ValidationError
                           (case error syntaxCheck of
                              Some e \<Rightarrow> e
                            | None \<Rightarrow> ''Invalid query syntax'')), sent)
                 else if isWriteQuery query then
                   (Inl (ValidationError
                           ''This query contains write operations. Use write_neo4j_cypher for CREATE, MERGE, DELETE, SET, or REMOVE operations.''),
                    sent)
                 else
                   (case neo4jClient context of
                      None \<Rightarrow>
                        (Inr (noConnectionResult rt (''query'', JStr (queryPreview query))), sent)
                    | Some client \<Rightarrow>
                        (case executeReadQuery client query ps sent of
                           (Inl message, sent') \<Rightarrow>
                             (Inr (failureResult rt ''Query execution failed'' message
                                     [(''query'', JStr (queryPreview query))]), sent')
                         | (Inr result, sent') \<Rightarrow>
                             let sanitizedRows = sanitizeNeo4jResults (rows result);
                                 output =
                                   JObj ([(''columns'', JArr (map JStr (columns result))),
                                          (''rowCount'', JNum (Finite (real (rowCount result)))),
                                          (''rows'', JArr sanitizedRows)]
                                         @ (if resultTruncated result
                                            then [(''truncated'', JBool True)] else []));
                                 jsonOutput = stringify rt output;
                                 limit = (case tokenLimit context of
                                            Some l \<Rightarrow> l | None \<Rightarrow> 10000);
                                 tokenResult = truncateToTokens jsonOutput
                                                 (DEFAULT_OPTIONS\<lparr>maxTokens := limit\<rparr>)
                             in (Inr (createToolResult
                                        (if truncated tokenResult then text' tokenResult
                                         else jsonOutput) False), sent'))))
      | _ \<Rightarrow> (Inl (InvalidParamsError ''Missing required parameter: query''), sent))"

definition executeWriteCypher ::
  "jsval \<Rightarrow> HandlerContext \<Rightarrow> runtime \<Rightarrow> remote_log
     \<Rightarrow> (mcp_error + McpToolResult) \<times> remote_log" where
  "executeWriteCypher args context rt sent =
     (if readOnly context then
        (Inr (failureResult rt ''Write operations disabled''
                ''This connection is configured as read-only. Write operations are not permitted.''
                []), sent)
      else
        case (if falsy args then JUndefined else propOf args ''query'') of
          JStr query \<Rightarrow>
            (case getOptionalObjectParam args ''params'' of
               Inl e \<Rightarrow> (Inl e, sent)
             | Inr rawParams \<Rightarrow>
                 let securityCheck = validateQuery query in
                 if \<not> valid securityCheck then
                   (Inl (ValidationError
                           (case error securityCheck of
                              Some e \<Rightarrow> e
                            | None \<Rightarrow> ''Query blocked for security reasons'')), sent)
                 else
                   let ps = sanitizeParameters rawParams;
                       syntaxCheck = validateCypherSyntax query
                   in
                   if \<not> valid syntaxCheck then
                     (Inl (ValidationError
                             (case error syntaxCheck of
                                Some e \<Rightarrow> e
                              | None \<Rightarrow> ''Invalid query syntax'')), sent)
                   else
                     (case neo4jClient context of
                        None \<Rightarrow>
                          (Inr (noConnectionResult rt (''query'', JStr (queryPreview query))), sent)
                      | Some client \<Rightarrow>
                          (case executeWriteQuery client query ps sent of
                             (Inl message, sent') \<Rightarrow>
                               (Inr (failureResult rt ''Query execution failed'' message
                                       [(''query'', JStr (queryPreview query))]), sent')
                           | (Inr (summary, counters), sent') \<Rightarrow>
                               (Inr (createToolResult
                                       (stringify rt
                                          (JObj [(''success'', JBool True),
                                                 (''summary'', JStr summary),
                                                 (''counters'', counters)]))
                                       False), sent'))))
        | _ \<Rightarrow> (Inl (InvalidParamsError ''Missing required parameter: query''), sent))"

definition handleToolsCall ::
  "JsonRpcRequest \<Rightarrow> HandlerContext \<Rightarrow> runtime \<Rightarrow> remote_log
     \<Rightarrow> (mcp_error + McpToolResult) \<times> remote_log" where
  "handleToolsCall request context rt sent =
     (case validateToolCallParams (params request) of
        Inl e \<Rightarrow> (Inl e, sent)
      | Inr (name, args) \<Rightarrow>
          if \<not> toolExists name then (Inl (InvalidParamsError (''Unknown tool: '' @ name)), sent)
          else if name = TOOL_GET_SCHEMA then (executeGetSchema args context rt, sent)
          else if name = TOOL_READ_CYPHER then executeReadCypher args context rt sent
          else if name = TOOL_WRITE_CYPHER then executeWriteCypher args context rt sent
          else (Inl (InvalidParamsError (''Unknown tool: '' @ name)), sent))"

datatype rpc_result =
    InitializeResult string string string
  | ToolsListResult "string list"
  | ToolCallResult McpToolResult
  | EmptyResult

datatype HandlerResult =
    Response rpc_result
  | Notification
  | Failure thrown

definition handleInitialize :: rpc_result where
  "handleInitialize = InitializeResult ''2024-11-05'' ''mcp-neo4j-cypher'' ''1.0.0''"

definition handleToolsList :: "HandlerContext \<Rightarrow> rpc_result" where
  "handleToolsList context = ToolsListResult (getAllTools (\<not> readOnly context))"

definition routeRequest ::
  "JsonRpcRequest \<Rightarrow> HandlerContext \<Rightarrow> runtime \<Rightarrow> remote_log \<Rightarrow> HandlerResult \<times> remote_log" where
  "routeRequest request context rt sent =
     (if rpc_method request = ''initialize'' then (Response handleInitialize, sent)
      else if rpc_method request = ''notifications/initialized'' then (Notification, sent)
      else if rpc_method request = ''tools/list'' then (Response (handleToolsList context), sent)
      else if rpc_method request = ''tools/call'' then
        (case handleToolsCall request context rt sent of
           (Inl e, sent') \<Rightarrow> (Failure (Mcp e), sent')
         | (Inr result, sent') \<Rightarrow> (Response (ToolCallResult result), sent'))
      else if rpc_method request = ''ping'' then (Response EmptyResult, sent)
      else (Failure (Mcp (MethodNotFoundError (rpc_method request))), sent))"

section \<open>Entry point of the tool-call endpoint\<close>

text \<open>
  Of the HTTP request the endpoint reads the body as JSON (\<open>None\<close> when it is not JSON)
  and two headers. \<open>optionalAuth\<close> is external: its outcome, the caller's context or
  \<open>null\<close>, is an argument.
\<close>

record HttpRequest =
  jsonBody :: "jsval option"
  header :: "string \<Rightarrow> string option"

record RequestContext =
  authUserId :: string
  authConnectionId :: string
  authReadOnly :: bool
  authClient :: Neo4jClient

record ServerConfig =
  readTimeout :: int
  configTokenLimit :: int
  configSchemaSampleSize :: int

datatype response_body =
    NoBody
  | RpcSuccess jsval rpc_result
  | RpcFailure jsval mcp_error
  | TooManyRequests int

record HttpResponse =
  status :: nat
  body :: response_body
  headers :: "(string \<times> string) list"

definition show_int :: "int \<Rightarrow> string" where
  "show_int i = (if i < 0 then CHR ''-'' # show_nat (nat (- i)) else show_nat (nat i))"

definition createRateLimitHeaders :: "RateLimitResult \<Rightarrow> (string \<times> string) list" where
  "createRateLimitHeaders result =
     [(''X-RateLimit-Limit'', show_int (limit result)),
      (''X-RateLimit-Remaining'', show_int (remaining result)),
      (''X-RateLimit-Reset'', show_int (resetIn result))]"

definition createRateLimitResponse :: "RateLimitResult \<Rightarrow> HttpResponse" where
  "createRateLimitResponse result =
     \<lparr> status = 429, body = TooManyRequests (resetIn result),
       headers = [(''Content-Type'', ''application/json''),
                  (''Retry-After'', show_int (resetIn result))]
                 @ createRateLimitHeaders result \<rparr>"

definition getRateLimitIdentifier :: "HttpRequest \<Rightarrow> string option \<Rightarrow> string" where
  "getRateLimitIdentifier request uid =
     (case (case uid of Some u \<Rightarrow> if u = [] then None else Some u | None \<Rightarrow> None) of
        Some u \<Rightarrow> ''user:'' @ u
      | None \<Rightarrow>
          (case (case header request ''CF-Connecting-IP'' of
                   Some ip \<Rightarrow> if ip = [] then None else Some ip | None \<Rightarrow> None) of
             Some cfIp \<Rightarrow> ''ip:'' @ cfIp
           | None \<Rightarrow>
               (case header request ''X-Forwarded-For'' of
                  Some forwardedFor \<Rightarrow>
                    if forwardedFor = [] then ''anonymous''
                    else let ip = trim (takeWhile (\<lambda>c. c \<noteq> CHR '','') forwardedFor)
                         in if ip = [] then ''anonymous'' else ''ip:'' @ ip
                | None \<Rightarrow> ''anonymous'')))"

definition errorResponse :: "string \<Rightarrow> mcp_error \<Rightarrow> HttpResponse" where
  "errorResponse rid e =
     \<lparr> status = 200, body = RpcFailure JNull e,
       headers = [(''Content-Type'', ''application/json''), (''X-Request-Id'', rid)] \<rparr>"

definition handleMcpRequest ::
  "HttpRequest \<Rightarrow> RequestContext option \<Rightarrow> ServerConfig \<Rightarrow> string \<Rightarrow> kv_store \<Rightarrow> call_env
     \<Rightarrow> runtime \<Rightarrow> remote_log \<Rightarrow> HttpResponse \<times> kv_store \<times> remote_log" where
  "handleMcpRequest request authContext config rid kv env rt sent =
     (case jsonBody request of
        None \<Rightarrow> (errorResponse rid (ParseError ''Invalid JSON in request body''), kv, sent)
      | Some b \<Rightarrow>
          (case parseJsonRpcRequest b of
             Inl e \<Rightarrow> (errorResponse rid e, kv, sent)
           | Inr rpcRequest \<Rightarrow>
               let rateLimitId =
                     getRateLimitIdentifier request (map_option authUserId authContext);
                   (rateLimitResult, kv') = checkRateLimit kv rateLimitId DEFAULT_CONFIG env
               in
               if \<not> allowed rateLimitResult then
                 (createRateLimitResponse rateLimitResult, kv', sent)
               else
                 let context =
                       \<lparr> requestId = rid,
                         neo4jClient = map_option authClient authContext,
                         readOnly = (case authContext of Some a \<Rightarrow> authReadOnly a
                                                      | None \<Rightarrow> False),
                         timeout = Some (readTimeout config),
                         tokenLimit = Some (configTokenLimit config),
                         schemaSampleSize = Some (configSchemaSampleSize config),
                         userId = map_option authUserId authContext,
                         connectionId = map_option authConnectionId authContext \<rparr>
                 in
                 (case routeRequest rpcRequest context rt sent of
                    (Notification, sent') \<Rightarrow>
                      if isNotification rpcRequest then
                        (\<lparr> status = 204, body = NoBody,
                           headers = createRateLimitHeaders rateLimitResult \<rparr>, kv', sent')
                      else
                        (\<lparr> status = 200, body = RpcSuccess (rpc_id rpcRequest) EmptyResult,
                           headers = [(''Content-Type'', ''application/json''),
                                      (''X-Request-Id'', rid)]
                                     @ createRateLimitHeaders rateLimitResult \<rparr>, kv', sent')
                  | (Response result, sent') \<Rightarrow>
                      (\<lparr> status = 200, body = RpcSuccess (rpc_id rpcRequest) result,
                         headers = [(''Content-Type'', ''application/json''),
                                    (''X-Request-Id'', rid)]
                                   @ createRateLimitHeaders rateLimitResult \<rparr>, kv', sent')
                  | (Failure err, sent') \<Rightarrow>
                      (errorResponse rid (toMcpError err), kv', sent'))))"

section \<open>Encryption of stored credentials\<close>

text \<open>
  A byte array is a list of 8-bit units, as a binary string is: \<open>String.fromCharCode\<close> on
  a byte and \<open>charCodeAt\<close> on a unit of a binary string are the identity between the two.
  \<open>btoa\<close> and \<open>atob\<close> are the platform's Base64 functions: \<open>btoa\<close> pads with \<open>=\<close>, and
  \<open>atob\<close> is the forgiving decoder, which drops ASCII white space, accepts a missing
  padding, and throws on any other character and on a length with remainder one.
\<close>

definition b64_alphabet :: string where
  "b64_alphabet = ''ABCDEFGHIJKLMNOPQRSTUVWXYZabcdefghijklmnopqrstuvwxyz0123456789+/''"

definition b64_char :: "nat \<Rightarrow> char" where
  "b64_char n = b64_alphabet ! n"

definition b64_index :: "char \<Rightarrow> nat" where
  "b64_index c = length (takeWhile (\<lambda>x. x \<noteq> c) b64_alphabet)"

fun btoa :: "string \<Rightarrow> string" where
  "btoa (a # b # c # rest) =
     (let x = (of_char a :: nat); y = (of_char b :: nat); z = (of_char c :: nat) in
      [b64_char (x div 4), b64_char ((x mod 4) * 16 + y div 16),
       b64_char ((y mod 16) * 4 + z div 64), b64_char (z mod 64)]) @ btoa rest"
| "btoa [a, b] =
     (let x = (of_char a :: nat); y = (of_char b :: nat) in
      [b64_char (x div 4), b64_char ((x mod 4) * 16 + y div 16),
       b64_char ((y mod 16) * 4), CHR ''=''])"
| "btoa [a] =
     (let x = (of_char a :: nat) in
      [b64_char (x div 4), b64_char ((x mod 4) * 16), CHR ''='', CHR ''=''])"
| "btoa [] = []"

fun b64_decode :: "string \<Rightarrow> string" where
  "b64_decode (p # q # r # s # rest) =
     (let i = b64_index p; j = b64_index q; k = b64_index r; l = b64_index s in
      [char_of (i * 4 + j div 16), char_of ((j mod 16) * 16 + k div 4),
       char_of ((k mod 4) * 64 + l)]) @ b64_decode rest"
| "b64_decode [p, q, r] =
     (let i = b64_index p; j = b64_index q; k = b64_index r in
      [char_of (i * 4 + j div 16), char_of ((j mod 16) * 16 + k div 4)])"
| "b64_decode [p, q] =
     (let i = b64_index p; j = b64_index q in [char_of (i * 4 + j div 16)])"
| "b64_decode [p] = []"
| "b64_decode [] = []"

definition isAsciiWhitespace :: "char \<Rightarrow> bool" where
  "isAsciiWhitespace c =
     (let n = (of_char c :: nat) in n = 9 \<or> n = 10 \<or> n = 12 \<or> n = 13 \<or> n = 32)"

definition stripPadding :: "string \<Rightarrow> string" where
  "stripPadding d =
     (if length d \<ge> 2 \<and> last d = CHR ''='' \<and> last (butlast d) = CHR ''='' then butlast (butlast d)
      else if length d \<ge> 1 \<and> last d = CHR ''='' then butlast d
      else d)"

definition atob :: "string \<Rightarrow> string option" where
  "atob data =
     (let d1 = filter (\<lambda>c. \<not> isAsciiWhitespace c) data;
          d2 = (if length d1 mod 4 = 0 then stripPadding d1 else d1)
      in if length d2 mod 4 = 1 then None
         else if \<exists>c \<in> set d2. c \<notin> set b64_alphabet then None
         else Some (b64_decode d2))"

text \<open>
  The cipher, the digest and the text codecs belong to the platform (\<open>crypto.subtle\<close>,
  \<open>TextEncoder\<close>, \<open>TextDecoder\<close>) and are parameters. Decryption answers \<open>None\<close> when it
  rejects its input. The initialisation vector, which \<open>encrypt\<close> draws at random, is an
  argument.
\<close>

record crypto_platform =
  sha256 :: "string \<Rightarrow> string"
  aesGcmEncrypt :: "string \<Rightarrow> string \<Rightarrow> string \<Rightarrow> string"
  aesGcmDecrypt :: "string \<Rightarrow> string \<Rightarrow> string \<Rightarrow> string option"
  textEncode :: "string \<Rightarrow> string"
  textDecode :: "string \<Rightarrow> string"

datatype crypto_error = InvalidCharacterError | DataError | DecryptionFailed

record EncryptedData =
  ciphertext :: string
  iv :: string

text \<open>\<open>importKey('raw', ...)\<close> for AES takes 16, 24 or 32 bytes.\<close>

definition importKey :: "string \<Rightarrow> crypto_error + string" where
  "importKey keyMaterial =
     (if length keyMaterial = 16 \<or> length keyMaterial = 24 \<or> length keyMaterial = 32
      then Inr keyMaterial else Inl DataError)"

definition deriveKey :: "crypto_platform \<Rightarrow> string \<Rightarrow> crypto_error + string" where
  "deriveKey plat base64Key =
     (case atob base64Key of
        None \<Rightarrow> Inl InvalidCharacterError
      | Some keyData \<Rightarrow>
          importKey (if length keyData = 32 then keyData else sha256 plat keyData))"

definition encrypt :: "crypto_platform \<Rightarrow> string \<Rightarrow> string \<Rightarrow> string \<Rightarrow> crypto_error + EncryptedData" where
  "encrypt plat plaintext encryptionKey ivBytes =
     (case deriveKey plat encryptionKey of
        Inl e \<Rightarrow> Inl e
      | Inr key \<Rightarrow>
          let plaintextBytes = textEncode plat plaintext;
              ciphertextBuffer = aesGcmEncrypt plat key ivBytes plaintextBytes
          in Inr \<lparr> ciphertext = btoa ciphertextBuffer, iv = btoa ivBytes \<rparr>)"

definition decrypt :: "crypto_platform \<Rightarrow> EncryptedData \<Rightarrow> string \<Rightarrow> crypto_error + string" where
  "decrypt plat encryptedData encryptionKey =
     (case deriveKey plat encryptionKey of
        Inl e \<Rightarrow> Inl e
      | Inr key \<Rightarrow>
          (case atob (iv encryptedData) of
             None \<Rightarrow> Inl InvalidCharacterError
           | Some ivBytes \<Rightarrow>
               (case atob (ciphertext encryptedData) of
                  None \<Rightarrow> Inl InvalidCharacterError
                | Some ct \<Rightarrow>
                    (case aesGcmDecrypt plat key ivBytes ct of
                       None \<Rightarrow> Inl DecryptionFailed
                     | Some plaintextBuffer \<Rightarrow> Inr (textDecode plat plaintextBuffer)))))"

section \<open>Fixtures for concrete evaluations\<close>

text \<open>
  A caller without a session: no client, nothing configured beyond the defaults, a
  serializer whose output is not looked at, a store that works, and the clock at zero.
\<close>

definition anonymous_context :: HandlerContext where
  "anonymous_context =
     \<lparr> requestId = ''r-1'', neo4jClient = None, readOnly = False, timeout = Some 30,
       tokenLimit = Some 10000, schemaSampleSize = Some 1000, userId = None,
       connectionId = None \<rparr>"

definition blank_runtime :: runtime where
  "blank_runtime = \<lparr> stringify = (\<lambda>v. []), schemaText = (\<lambda>n. Inl []) \<rparr>"

definition default_config :: ServerConfig where
  "default_config = \<lparr> readTimeout = 30, configTokenLimit = 10000, configSchemaSampleSize = 1000 \<rparr>"

definition working_env :: call_env where
  "working_env = \<lparr> clock1 = 0, clock2 = 0, get_throws = False, put_throws = False \<rparr>"

definition post_of :: "jsval \<Rightarrow> HttpRequest" where
  "post_of b = \<lparr> jsonBody = Some b, header = (\<lambda>name. None) \<rparr>"

text \<open>A \<open>tools/call\<close> request for the read tool with the given arguments.\<close>

definition read_call :: "js_object \<Rightarrow> JsonRpcRequest" where
  "read_call args =
     \<lparr> rpc_id = JNum (Finite 1), rpc_method = ''tools/call'',
       params = JObj [(''name'', JStr ''read_neo4j_cypher''), (''arguments'', JObj args)] \<rparr>"

text \<open>The body \<open>{"jsonrpc": "2.0", "method": "ping"}\<close>: a request without an id.\<close>

definition ping_without_id :: jsval where
  "ping_without_id = JObj [(''jsonrpc'', JStr ''2.0''), (''method'', JStr ''ping'')]"

text \<open>
  A stand-in platform whose cipher and codecs leave the bytes as they are and whose
  digest is 32 zero bytes; it serves where the outcome does not depend on the cipher.
\<close>

definition plain_platform :: crypto_platform where
  "plain_platform =
     \<lparr> sha256 = (\<lambda>b. replicate 32 (CHR 0x00)),
       aesGcmEncrypt = (\<lambda>key nonce bytes. bytes),
       aesGcmDecrypt = (\<lambda>key nonce bytes. Some bytes),
       textEncode = (\<lambda>s. s),
       textDecode = (\<lambda>b. b) \<rparr>"

text \<open>A client that answers every read with an empty result.\<close>

definition silent_client :: Neo4jClient where
  "silent_client =
     \<lparr> readReply = (\<lambda>q ps. Inr \<lparr> columns = [], rows = [], rowCount = 0,
                                    resultTruncated = False \<rparr>),
       writeReply = (\<lambda>q ps. Inl []) \<rparr>"

section \<open>Properties of truncation\<close>

lemma lastIndexFrom_bounds: "- 1 \<le> lastIndexFrom t ch k \<and> lastIndexFrom t ch k < int k"
  by (induction k) auto

lemma lastIndexOf_le: "lastIndexOf t ch pos \<le> max 0 pos"
  using lastIndexFrom_bounds [of t ch "Suc (nat (max 0 pos))"]
  by (simp add: lastIndexOf_def)

lemma estimateTokens_fits:
  assumes "0 < c" and "int (length t) \<le> b * int c"
  shows "estimateTokens t c \<le> b"
proof -
  have b0: "0 \<le> b"
  proof (rule ccontr)
    assume "\<not> 0 \<le> b"
    then have "b * int c < 0" using assms(1) by (simp add: mult_less_0_iff)
    with assms(2) show False by simp
  qed
  show ?thesis
  proof (cases "t = []")
    case True
    with b0 show ?thesis by (simp add: estimateTokens_def)
  next
    case False
    obtain n where n: "b = int n" using b0 nonneg_int_cases by blast
    with assms(2) have "length t \<le> n * c"
      by (metis of_nat_le_iff of_nat_mult)
    then have "length t + c - 1 < n * c + c" using assms(1) by simp
    then have "(length t + c - 1) div c < Suc n"
      using assms(1) by (simp add: less_mult_imp_div_less)
    with False n show ?thesis by (simp add: estimateTokens_def)
  qed
qed

lemma estimateTokens_suffix_covers:
  "0 < c \<Longrightarrow> int (length s) \<le> estimateTokens s c * int c"
proof (cases "s = []")
  case True
  then show ?thesis by (simp add: estimateTokens_def)
next
  case False
  assume c: "0 < c"
  have "length s \<le> ((length s + c - 1) div c) * c"
  proof -
    have "length s + c - 1 < ((length s + c - 1) div c) * c + c"
      using c by (metis add.commute dividend_less_div_times)
    then show ?thesis using c by simp
  qed
  with False show ?thesis
    by (simp add: estimateTokens_def) (metis of_nat_le_iff of_nat_mult)
qed

lemma truncateToTokens_idem:
  assumes c: "0 < charsPerToken opts"
  shows "text' (truncateToTokens (text' (truncateToTokens X opts)) opts)
           = text' (truncateToTokens X opts)"
proof (cases "estimateTokens X (charsPerToken opts) \<le> maxTokens opts")
  case True
  then show ?thesis by (simp add: truncateToTokens_def Let_def)
next
  case over: False
  define cpt where "cpt = charsPerToken opts"
  define suf where "suf = truncationSuffix opts"
  define maxChars where "maxChars = (maxTokens opts - estimateTokens suf cpt) * int cpt"
  define lastNewline where "lastNewline = lastIndexOf X newline maxChars"
  define lastSpace where "lastSpace = lastIndexOf X space maxChars"
  define truncateAt where "truncateAt =
     (if lastNewline > maxChars - 100 \<and> lastNewline > 0 then lastNewline
      else if lastSpace > maxChars - 50 \<and> lastSpace > 0 then lastSpace else maxChars)"
  define Y where "Y = substring0 X truncateAt @ suf"
  have first: "text' (truncateToTokens X opts) = Y"
    using over
    by (simp add: truncateToTokens_def Let_def Y_def truncateAt_def lastSpace_def
        lastNewline_def maxChars_def suf_def cpt_def)
  have cpos: "0 < cpt" using c by (simp add: cpt_def)
  have le_max: "truncateAt \<le> max 0 maxChars"
    using lastIndexOf_le [of X newline maxChars] lastIndexOf_le [of X space maxChars]
    by (auto simp: truncateAt_def lastNewline_def lastSpace_def)
  show ?thesis
  proof (cases "0 \<le> maxChars")
    case True
    then have "truncateAt \<le> maxChars" using le_max by simp
    moreover have "int (length (substring0 X truncateAt)) \<le> max 0 truncateAt"
      by (simp add: substring0_def)
    moreover have "int (length suf) \<le> estimateTokens suf cpt * int cpt"
      using estimateTokens_suffix_covers [OF cpos] .
    ultimately have "int (length Y) \<le> maxTokens opts * int cpt"
      using True by (simp add: Y_def maxChars_def algebra_simps)
    then have "estimateTokens Y cpt \<le> maxTokens opts"
      using estimateTokens_fits [OF cpos] by simp
    then have "text' (truncateToTokens Y opts) = Y"
      by (simp add: truncateToTokens_def Let_def cpt_def)
    with first show ?thesis by simp
  next
    case neg: False
    then have tneg: "truncateAt \<le> 0" using le_max by simp
    then have Ysuf: "Y = suf" by (simp add: Y_def substring0_def)
    have again: "text' (truncateToTokens suf opts) = suf"
    proof (cases "estimateTokens suf cpt \<le> maxTokens opts")
      case True
      then show ?thesis by (simp add: truncateToTokens_def Let_def cpt_def)
    next
      case False
      define at2 where "at2 =
        (if lastIndexOf suf newline maxChars > maxChars - 100 \<and> lastIndexOf suf newline maxChars > 0
         then lastIndexOf suf newline maxChars
         else if lastIndexOf suf space maxChars > maxChars - 50 \<and> lastIndexOf suf space maxChars > 0
         then lastIndexOf suf space maxChars else maxChars)"
      have "at2 \<le> max 0 maxChars"
        using lastIndexOf_le [of suf newline maxChars] lastIndexOf_le [of suf space maxChars]
        by (auto simp: at2_def)
      then have "at2 \<le> 0" using neg by simp
      then have "substring0 suf at2 = []" by (simp add: substring0_def)
      moreover have "text' (truncateToTokens suf opts) = substring0 suf at2 @ suf"
        using False
        by (simp add: truncateToTokens_def Let_def at2_def maxChars_def suf_def cpt_def)
      ultimately show ?thesis by simp
    qed
    with first Ysuf show ?thesis by simp
  qed
qed

text \<open>
  C7. Truncation is idempotent: for every text \<open>X\<close> and every token budget \<open>B\<close>,
  truncating the text that \<open>truncateToTokens\<close> returned for \<open>X\<close> and \<open>B\<close> again with the
  same budget returns that text as it is.
\<close>

theorem truncateToTokens_idempotent:
  "text' (truncateToTokens
           (text' (truncateToTokens X (DEFAULT_OPTIONS\<lparr>maxTokens := B\<rparr>)))
           (DEFAULT_OPTIONS\<lparr>maxTokens := B\<rparr>))
     = text' (truncateToTokens X (DEFAULT_OPTIONS\<lparr>maxTokens := B\<rparr>))"
  by (rule truncateToTokens_idem) (simp add: DEFAULT_OPTIONS_def)

section \<open>Properties of the rate limiter\<close>

lemma same_window_close:
  assumes "0 < W" and "getCurrentWindow W t = getCurrentWindow W u"
  shows "t div 1000 < u div 1000 + W * 2"
proof -
  from assms have q: "(t div 1000) div W = (u div 1000) div W"
    by (simp add: getCurrentWindow_def Let_def)
  have "t div 1000 - (t div 1000) mod W = ((t div 1000) div W) * W"
    by (simp add: minus_mod_eq_div_mult)
  moreover have "u div 1000 - (u div 1000) mod W = ((u div 1000) div W) * W"
    by (simp add: minus_mod_eq_div_mult)
  ultimately have "t div 1000 - (t div 1000) mod W = u div 1000 - (u div 1000) mod W"
    using q by simp
  moreover have "(t div 1000) mod W < W" "0 \<le> (u div 1000) mod W"
    using assms(1) by simp_all
  ultimately show ?thesis using assms(1) by linarith
qed

lemma checkRateLimit_first:
  assumes "kv (getRateLimitKey ident) = None" "\<not> get_throws env" "\<not> put_throws env"
    "1 \<le> maxRequests cfg" "checkRateLimit kv ident cfg env = (r, kv')"
  shows "allowed r \<and> current r = 1 \<and>
         kv' (getRateLimitKey ident) =
           Some (\<lparr> count = 1, window = getCurrentWindow (windowSeconds cfg) (clock1 env) \<rparr>,
                 clock1 env div 1000 + windowSeconds cfg * 2)"
  using assms by (auto simp: checkRateLimit_def kv_get_def kv_put_def Let_def)

lemma checkRateLimit_same_window:
  assumes "kv (getRateLimitKey ident) =
             Some (\<lparr> count = n, window = getCurrentWindow (windowSeconds cfg) t \<rparr>,
                   t div 1000 + windowSeconds cfg * 2)"
    and "getCurrentWindow (windowSeconds cfg) (clock1 env) = getCurrentWindow (windowSeconds cfg) t"
    and "0 < windowSeconds cfg" "\<not> get_throws env" "\<not> put_throws env"
    and "checkRateLimit kv ident cfg env = (r, kv')"
  shows "current r = n + 1 \<and> allowed r = (n + 1 \<le> maxRequests cfg) \<and>
         remaining r = max 0 (maxRequests cfg - (n + 1)) \<and>
         kv' (getRateLimitKey ident) =
           (if n + 1 \<le> maxRequests cfg
            then Some (\<lparr> count = n + 1, window = getCurrentWindow (windowSeconds cfg) t \<rparr>,
                       clock1 env div 1000 + windowSeconds cfg * 2)
            else kv (getRateLimitKey ident))"
proof -
  have "clock1 env div 1000 < t div 1000 + windowSeconds cfg * 2"
    using same_window_close [OF assms(3) assms(2)] .
  with assms show ?thesis
    by (auto simp: checkRateLimit_def kv_get_def kv_put_def Let_def)
qed

lemma checkRateLimit_other_window:
  assumes "kv (getRateLimitKey ident) = Some (\<lparr> count = n, window = w \<rparr>, x)"
    and "getCurrentWindow (windowSeconds cfg) (clock1 env) \<noteq> w"
    and "1 \<le> maxRequests cfg" "\<not> get_throws env" "\<not> put_throws env"
    and "checkRateLimit kv ident cfg env = (r, kv')"
  shows "allowed r \<and> current r = 1"
  using assms
  by (auto simp: checkRateLimit_def kv_get_def kv_put_def Let_def split: if_splits)

text \<open>
  C4. With \<open>maxRequests = 3\<close> and an identity that has no stored record, four calls in
  the same fixed window are answered: allowed, allowed, allowed, and the fourth not
  allowed with \<open>current = 4\<close> and \<open>remaining = 0\<close>; a fifth call in the next window is
  allowed with \<open>current = 1\<close>. The store is working (no call throws) and the window
  length is positive.
\<close>

theorem checkRateLimit_four_then_reset:
  assumes fresh: "kv0 (getRateLimitKey ident) = None"
    and cfg: "cfg = \<lparr> maxRequests = 3, windowSeconds = W \<rparr>" and W: "0 < W"
    and working: "\<forall>e \<in> set [e1, e2, e3, e4, e5]. \<not> get_throws e \<and> \<not> put_throws e"
    and same: "\<forall>e \<in> set [e2, e3, e4].
                 getCurrentWindow W (clock1 e) = getCurrentWindow W (clock1 e1)"
    and nxt: "getCurrentWindow W (clock1 e5) = getCurrentWindow W (clock1 e1) + W"
    and c1: "checkRateLimit kv0 ident cfg e1 = (r1, kv1)"
    and c2: "checkRateLimit kv1 ident cfg e2 = (r2, kv2)"
    and c3: "checkRateLimit kv2 ident cfg e3 = (r3, kv3)"
    and c4: "checkRateLimit kv3 ident cfg e4 = (r4, kv4)"
    and c5: "checkRateLimit kv4 ident cfg e5 = (r5, kv5)"
  shows "allowed r1 \<and> allowed r2 \<and> allowed r3 \<and>
         \<not> allowed r4 \<and> current r4 = 4 \<and> remaining r4 = 0 \<and>
         allowed r5 \<and> current r5 = 1"
proof -
  let ?w = "getCurrentWindow (windowSeconds cfg) (clock1 e1)"
  have ws: "windowSeconds cfg = W" and mx: "maxRequests cfg = 3" using cfg by simp_all
  have s1: "allowed r1 \<and> current r1 = 1 \<and>
        kv1 (getRateLimitKey ident) =
          Some (\<lparr> count = 1, window = ?w \<rparr>, clock1 e1 div 1000 + windowSeconds cfg * 2)"
    using checkRateLimit_first [OF fresh _ _ _ c1] working mx by simp
  have s2: "current r2 = 2 \<and> allowed r2 \<and>
        kv2 (getRateLimitKey ident) =
          Some (\<lparr> count = 2, window = ?w \<rparr>, clock1 e2 div 1000 + windowSeconds cfg * 2)"
    using checkRateLimit_same_window [of kv1 ident 1 cfg "clock1 e1" e2 r2 kv2]
      s1 same working W c2 ws mx by simp
  have w2: "getCurrentWindow (windowSeconds cfg) (clock1 e2) = ?w" using same ws by simp
  have s3: "current r3 = 3 \<and> allowed r3 \<and>
        kv3 (getRateLimitKey ident) =
          Some (\<lparr> count = 3, window = ?w \<rparr>, clock1 e3 div 1000 + windowSeconds cfg * 2)"
    using checkRateLimit_same_window [of kv2 ident 2 cfg "clock1 e2" e3 r3 kv3]
      s2 w2 same working W c3 ws mx by simp
  have w3: "getCurrentWindow (windowSeconds cfg) (clock1 e3) = ?w" using same ws by simp
  have s4: "current r4 = 4 \<and> \<not> allowed r4 \<and> remaining r4 = 0 \<and>
        kv4 (getRateLimitKey ident) =
          Some (\<lparr> count = 3, window = ?w \<rparr>, clock1 e3 div 1000 + windowSeconds cfg * 2)"
    using checkRateLimit_same_window [of kv3 ident 3 cfg "clock1 e3" e4 r4 kv4]
      s3 w3 same working W c4 ws mx by simp
  have "getCurrentWindow (windowSeconds cfg) (clock1 e5) \<noteq> ?w" using nxt W ws by simp
  then have s5: "allowed r5 \<and> current r5 = 1"
    using checkRateLimit_other_window [of kv4 ident 3 ?w _ cfg e5 r5 kv5] s4 working c5 mx
    by simp
  from s1 s2 s3 s4 s5 show ?thesis by simp
qed

theorem checkRateLimit_four_then_reset_witness:
  "\<exists>r1 kv1 r2 kv2 r3 kv3 r4 kv4 r5 kv5.
     checkRateLimit Map.empty ''user:limited'' \<lparr> maxRequests = 3, windowSeconds = 60 \<rparr>
       \<lparr> clock1 = 1000, clock2 = 1000, get_throws = False, put_throws = False \<rparr> = (r1, kv1) \<and>
     checkRateLimit kv1 ''user:limited'' \<lparr> maxRequests = 3, windowSeconds = 60 \<rparr>
       \<lparr> clock1 = 2000, clock2 = 2000, get_throws = False, put_throws = False \<rparr> = (r2, kv2) \<and>
     checkRateLimit kv2 ''user:limited'' \<lparr> maxRequests = 3, windowSeconds = 60 \<rparr>
       \<lparr> clock1 = 3000, clock2 = 3000, get_throws = False, put_throws = False \<rparr> = (r3, kv3) \<and>
     checkRateLimit kv3 ''user:limited'' \<lparr> maxRequests = 3, windowSeconds = 60 \<rparr>
       \<lparr> clock1 = 4000, clock2 = 4000, get_throws = False, put_throws = False \<rparr> = (r4, kv4) \<and>
     checkRateLimit kv4 ''user:limited'' \<lparr> maxRequests = 3, windowSeconds = 60 \<rparr>
       \<lparr> clock1 = 61000, clock2 = 61000, get_throws = False, put_throws = False \<rparr> = (r5, kv5) \<and>
     allowed r1 \<and> allowed r2 \<and> allowed r3 \<and>
     \<not> allowed r4 \<and> current r4 = 4 \<and> remaining r4 = 0 \<and>
     allowed r5 \<and> current r5 = 1"
proof -
  let ?cfg = "\<lparr> maxRequests = 3, windowSeconds = 60 \<rparr>"
  let ?e1 = "\<lparr> clock1 = 1000, clock2 = 1000, get_throws = False, put_throws = False \<rparr>"
  let ?e2 = "\<lparr> clock1 = 2000, clock2 = 2000, get_throws = False, put_throws = False \<rparr>"
  let ?e3 = "\<lparr> clock1 = 3000, clock2 = 3000, get_throws = False, put_throws = False \<rparr>"
  let ?e4 = "\<lparr> clock1 = 4000, clock2 = 4000, get_throws = False, put_throws = False \<rparr>"
  let ?e5 = "\<lparr> clock1 = 61000, clock2 = 61000, get_throws = False, put_throws = False \<rparr>"
  obtain r1 kv1 where c1: "checkRateLimit Map.empty ''user:limited'' ?cfg ?e1 = (r1, kv1)"
    by (cases "checkRateLimit Map.empty ''user:limited'' ?cfg ?e1") blast
  obtain r2 kv2 where c2: "checkRateLimit kv1 ''user:limited'' ?cfg ?e2 = (r2, kv2)"
    by (cases "checkRateLimit kv1 ''user:limited'' ?cfg ?e2") blast
  obtain r3 kv3 where c3: "checkRateLimit kv2 ''user:limited'' ?cfg ?e3 = (r3, kv3)"
    by (cases "checkRateLimit kv2 ''user:limited'' ?cfg ?e3") blast
  obtain r4 kv4 where c4: "checkRateLimit kv3 ''user:limited'' ?cfg ?e4 = (r4, kv4)"
    by (cases "checkRateLimit kv3 ''user:limited'' ?cfg ?e4") blast
  obtain r5 kv5 where c5: "checkRateLimit kv4 ''user:limited'' ?cfg ?e5 = (r5, kv5)"
    by (cases "checkRateLimit kv4 ''user:limited'' ?cfg ?e5") blast
  have "allowed r1 \<and> allowed r2 \<and> allowed r3 \<and>
        \<not> allowed r4 \<and> current r4 = 4 \<and> remaining r4 = 0 \<and>
        allowed r5 \<and> current r5 = 1"
    by (rule checkRateLimit_four_then_reset
          [of Map.empty "''user:limited''" ?cfg 60 ?e1 ?e2 ?e3 ?e4 ?e5, OF _ _ _ _ _ _ c1 c2 c3 c4 c5])
       (simp_all add: getCurrentWindow_def)
  with c1 c2 c3 c4 c5 show ?thesis by blast
qed

text \<open>
  C5. A call that is answered not allowed writes nothing: the store after the call is
  the store before it. And the record found under the identity's key after any call is
  the record that was there before, or one whose count is at most \<open>maxRequests\<close>.
\<close>

theorem checkRateLimit_blocked_writes_nothing:
  "(\<not> allowed (fst (checkRateLimit kv ident cfg env))
      \<longrightarrow> snd (checkRateLimit kv ident cfg env) = kv) \<and>
   (\<forall>e x. snd (checkRateLimit kv ident cfg env) (getRateLimitKey ident) = Some (e, x)
      \<longrightarrow> kv (getRateLimitKey ident) = Some (e, x) \<or> count e \<le> maxRequests cfg)"
  by (auto simp: checkRateLimit_def kv_get_def kv_put_def Let_def
           split: sum.splits option.splits if_splits)

theorem checkRateLimit_blocked_writes_nothing_witness:
  "\<not> allowed (fst (checkRateLimit
        [''rate:user:limited'' \<mapsto> (\<lparr> count = 3, window = 0 \<rparr>, 121)] ''user:limited''
        \<lparr> maxRequests = 3, windowSeconds = 60 \<rparr>
        \<lparr> clock1 = 4000, clock2 = 4000, get_throws = False, put_throws = False \<rparr>)) \<and>
   snd (checkRateLimit
        [''rate:user:limited'' \<mapsto> (\<lparr> count = 3, window = 0 \<rparr>, 121)] ''user:limited''
        \<lparr> maxRequests = 3, windowSeconds = 60 \<rparr>
        \<lparr> clock1 = 4000, clock2 = 4000, get_throws = False, put_throws = False \<rparr>)
     = [''rate:user:limited'' \<mapsto> (\<lparr> count = 3, window = 0 \<rparr>, 121)]"
proof -
  let ?kv = "[''rate:user:limited'' \<mapsto> (\<lparr> count = 3, window = 0 \<rparr>, 121::int)]"
  let ?cfg = "\<lparr> maxRequests = 3, windowSeconds = 60 \<rparr>"
  let ?env = "\<lparr> clock1 = 4000, clock2 = 4000, get_throws = False, put_throws = False \<rparr>"
  have blocked: "\<not> allowed (fst (checkRateLimit ?kv ''user:limited'' ?cfg ?env))"
    by (simp add: checkRateLimit_def kv_get_def getRateLimitKey_def getCurrentWindow_def Let_def)
  with checkRateLimit_blocked_writes_nothing [of ?kv "''user:limited''" ?cfg ?env]
  show ?thesis by blast
qed

section \<open>Properties of the sanitizer\<close>





lemma show_nat_64: "show_nat 64 = ''64''"
  by code_simp




lemma isEmbeddingArray_numeric:
  assumes "64 \<le> length A" and "\<forall>x \<in> set A. isNumeric x"
  shows "isEmbeddingArray A"
proof -
  have "\<forall>x \<in> set (take 10 A). isNumeric x" using assms(2) by (meson in_set_takeD)
  then have "filter isNumeric (take 10 A) = take 10 A" by (simp add: filter_id_conv)
  with assms(1) show ?thesis by (simp add: isEmbeddingArray_def Let_def)
qed

lemma sanitizeValue_number:
  "depth \<le> maxDepth opts \<Longrightarrow> sanitizeValue (JNum n) opts depth = JNum n"
  by (subst sanitizeValue.simps) simp

text \<open>
  C9, as stated, fails: \<open>NaN\<close> is a number, and an array of 64 \<open>NaN\<close>s is not classified
  as an embedding (the sample counts only numbers that are not \<open>NaN\<close>); it is returned
  as an array.
\<close>

theorem sanitize_numeric_array_counterexample:
  "sanitize (JArr (replicate 64 (JNum NaN))) DEFAULT_SANITIZE_OPTIONS
     = JArr (replicate 64 (JNum NaN))"
  by code_simp

text \<open>
  C9, amended. For every array of at least 64 numbers none of which is \<open>NaN\<close>,
  \<open>sanitize\<close> with the default options returns the single string
  \<open>[Embedding array with n dimensions - filtered]\<close>, \<open>n\<close> the length of the array; for
  every array of fewer than 64 numbers (\<open>NaN\<close> or not) it returns the array unchanged.
\<close>

theorem sanitize_numeric_array:
  "(64 \<le> length A \<and> (\<forall>x \<in> set A. isNumeric x) \<longrightarrow>
      sanitize (JArr A) DEFAULT_SANITIZE_OPTIONS =
        JStr (''[Embedding array with '' @ show_nat (length A) @ '' dimensions - filtered]'')) \<and>
   (length A < 64 \<and> (\<forall>x \<in> set A. \<exists>n. x = JNum n) \<longrightarrow>
      sanitize (JArr A) DEFAULT_SANITIZE_OPTIONS = JArr A)"
proof (intro conjI impI)
  assume "64 \<le> length A \<and> (\<forall>x \<in> set A. isNumeric x)"
  then have "isEmbeddingArray A" using isEmbeddingArray_numeric by blast
  then show "sanitize (JArr A) DEFAULT_SANITIZE_OPTIONS =
        JStr (''[Embedding array with '' @ show_nat (length A) @ '' dimensions - filtered]'')"
    by (simp add: sanitize_def sanitizeValue.simps [of "JArr A"] DEFAULT_SANITIZE_OPTIONS_def)
next
  assume a: "length A < 64 \<and> (\<forall>x \<in> set A. \<exists>n. x = JNum n)"
  then have ne: "\<not> isEmbeddingArray A" by (simp add: isEmbeddingArray_def)
  have m: "map (\<lambda>item. sanitizeValue item DEFAULT_SANITIZE_OPTIONS 1) A = A"
  proof (rule map_idI)
    fix x assume "x \<in> set A"
    with a obtain n where "x = JNum n" by blast
    then show "sanitizeValue x DEFAULT_SANITIZE_OPTIONS 1 = x"
      by (simp add: sanitizeValue_number DEFAULT_SANITIZE_OPTIONS_def)
  qed
  have f: "filter (\<lambda>item. item \<noteq> JUndefined) A = A"
    using a by (auto simp: filter_id_conv)
  have "sanitize (JArr A) DEFAULT_SANITIZE_OPTIONS =
          JArr (filter (\<lambda>item. item \<noteq> JUndefined)
                  (map (\<lambda>item. sanitizeValue item DEFAULT_SANITIZE_OPTIONS 1) A))"
    using a ne
    by (simp add: sanitize_def sanitizeValue.simps [of "JArr A"] DEFAULT_SANITIZE_OPTIONS_def)
  with m f show "sanitize (JArr A) DEFAULT_SANITIZE_OPTIONS = JArr A" by simp
qed

theorem sanitize_numeric_array_witness:
  "sanitize (JArr (replicate 64 (JNum (Finite 1)))) DEFAULT_SANITIZE_OPTIONS =
     JStr ''[Embedding array with 64 dimensions - filtered]'' \<and>
   sanitize (JArr [JNum (Finite 1), JNum NaN]) DEFAULT_SANITIZE_OPTIONS =
     JArr [JNum (Finite 1), JNum NaN]"
proof -
  have "64 \<le> length (replicate 64 (JNum (Finite 1))) \<and>
        (\<forall>x \<in> set (replicate 64 (JNum (Finite 1))). isNumeric x)"
    by (simp add: isNumeric_def)
  moreover have "length [JNum (Finite 1), JNum NaN] < 64 \<and>
        (\<forall>x \<in> set [JNum (Finite 1), JNum NaN]. \<exists>n. x = JNum n)"
    by simp
  ultimately show ?thesis
    using sanitize_numeric_array [of "replicate 64 (JNum (Finite 1))"]
      sanitize_numeric_array [of "[JNum (Finite 1), JNum NaN]"] show_nat_64
    by simp
qed

section \<open>Properties of the query validator\<close>











section \<open>Properties of parameter sanitization\<close>


lemma obj_assign_fresh:
  "key \<notin> fst ` set acc \<Longrightarrow> key \<noteq> ''__proto__'' \<Longrightarrow> obj_assign acc key v = acc @ [(key, v)]"
  by (simp add: obj_assign_def)

lemma obj_assign_proto: "obj_assign acc ''__proto__'' v = acc"
  by (simp add: obj_assign_def)

lemma sanitize_fold_none:
  "\<forall>kv \<in> set entries. \<not> rx_test flags_none re_param_key (fst kv) \<Longrightarrow>
   fold (\<lambda>(key, v) acc.
           if \<not> rx_test flags_none re_param_key key then acc
           else if v \<noteq> JOther then obj_assign acc key v else acc) entries acc = acc"
  by (induction entries arbitrary: acc) (auto split: prod.splits)

lemma sanitize_fold_filter:
  "distinct (map fst entries) \<Longrightarrow> fst ` set acc \<inter> fst ` set entries = {} \<Longrightarrow>
   fold (\<lambda>(key, v) acc.
           if \<not> rx_test flags_none re_param_key key then acc
           else if v \<noteq> JOther then obj_assign acc key v else acc) entries acc
   = acc @ filter (\<lambda>(k, v). rx_test flags_none re_param_key k \<and> k \<noteq> ''__proto__'' \<and> v \<noteq> JOther)
             entries"
proof (induction entries arbitrary: acc)
  case Nil
  then show ?case by simp
next
  case (Cons e entries)
  obtain k v where e: "e = (k, v)" by (cases e)
  from Cons.prems have d: "distinct (map fst entries)" and kn: "k \<notin> fst ` set entries"
    and ka: "k \<notin> fst ` set acc" and disj: "fst ` set acc \<inter> fst ` set entries = {}"
    using e by auto
  show ?case
  proof (cases "rx_test flags_none re_param_key k \<and> k \<noteq> ''__proto__'' \<and> v \<noteq> JOther")
    case True
    then have step: "obj_assign acc k v = acc @ [(k, v)]" using ka by (simp add: obj_assign_fresh)
    have "fst ` set (acc @ [(k, v)]) \<inter> fst ` set entries = {}" using disj kn by auto
    from Cons.IH [OF d this] True step e show ?thesis by simp
  next
    case False
    from Cons.IH [OF d disj] False e show ?thesis by (auto simp: obj_assign_proto)
  qed
qed

text \<open>
  C10, amended. When no key of the parameter map matches \<open>[A-Za-z_][A-Za-z0-9_]*\<close>,
  \<open>sanitizeParameters\<close> returns \<open>undefined\<close>. In general (the keys of a map are distinct)
  the result holds, in their order, exactly the entries whose key matches the pattern
  and is not \<open>__proto__\<close> and whose value is null, undefined, a string, a number, a
  boolean, an array or an object; it is \<open>undefined\<close> when no entry is left.
\<close>

theorem sanitizeParameters_keeps:
  "((\<forall>kv \<in> set entries. \<not> rx_test flags_none re_param_key (fst kv)) \<longrightarrow>
      sanitizeParameters (Some entries) = None) \<and>
   (distinct (map fst entries) \<longrightarrow>
      sanitizeParameters (Some entries) =
        (let kept = filter (\<lambda>(k, v). rx_test flags_none re_param_key k \<and> k \<noteq> ''__proto__''
                                        \<and> v \<noteq> JOther) entries
         in if kept = [] then None else Some kept))"
proof (intro conjI impI)
  assume "\<forall>kv \<in> set entries. \<not> rx_test flags_none re_param_key (fst kv)"
  from sanitize_fold_none [OF this, of "[]"]
  show "sanitizeParameters (Some entries) = None"
    by (simp add: sanitizeParameters_def)
next
  assume "distinct (map fst entries)"
  from sanitize_fold_filter [OF this, of "[]"]
  show "sanitizeParameters (Some entries) =
        (let kept = filter (\<lambda>(k, v). rx_test flags_none re_param_key k \<and> k \<noteq> ''__proto__''
                                        \<and> v \<noteq> JOther) entries
         in if kept = [] then None else Some kept)"
    by (simp add: sanitizeParameters_def Let_def)
qed

lemma key_valid: "rx_test flags_none re_param_key ''valid_key''"
  by code_simp

lemma key_digit: "\<not> rx_test flags_none re_param_key ''123invalid''"
  by code_simp

lemma key_dash: "\<not> rx_test flags_none re_param_key ''also-invalid''"
  by code_simp

lemma key_b: "rx_test flags_none re_param_key ''b''"
  by code_simp

theorem sanitizeParameters_keeps_witness:
  "sanitizeParameters (Some [(''123invalid'', JNum (Finite 2)), (''also-invalid'', JNum (Finite 3))])
     = None \<and>
   sanitizeParameters (Some [(''valid_key'', JNum (Finite 1)), (''123invalid'', JNum (Finite 2)),
                            (''also-invalid'', JNum (Finite 3))])
     = Some [(''valid_key'', JNum (Finite 1))]"
proof -
  have a: "\<forall>kv \<in> set [(''123invalid'', JNum (Finite 2)), (''also-invalid'', JNum (Finite 3))].
             \<not> rx_test flags_none re_param_key (fst kv)"
    by (simp add: key_digit key_dash)
  have b: "distinct (map fst [(''valid_key'', JNum (Finite 1)), (''123invalid'', JNum (Finite 2)),
                            (''also-invalid'', JNum (Finite 3))])"
    by simp
  from sanitizeParameters_keeps
         [of "[(''123invalid'', JNum (Finite 2)), (''also-invalid'', JNum (Finite 3))]"] a
  have one: "sanitizeParameters
               (Some [(''123invalid'', JNum (Finite 2)), (''also-invalid'', JNum (Finite 3))]) = None"
    by blast
  from sanitizeParameters_keeps
         [of "[(''valid_key'', JNum (Finite 1)), (''123invalid'', JNum (Finite 2)),
               (''also-invalid'', JNum (Finite 3))]"] b
  have two: "sanitizeParameters
               (Some [(''valid_key'', JNum (Finite 1)), (''123invalid'', JNum (Finite 2)),
                      (''also-invalid'', JNum (Finite 3))])
             = Some [(''valid_key'', JNum (Finite 1))]"
    by (simp add: key_valid key_digit key_dash)
  from one two show ?thesis by (rule conjI)
qed

text \<open>
  C10, as stated, fails: the key \<open>b\<close> matches the pattern, but its value is of another
  type (a function, a symbol or a bigint), so the entry is not in the result.
\<close>

theorem sanitizeParameters_counterexample:
  "rx_test flags_none re_param_key ''b'' \<and>
   sanitizeParameters (Some [(''valid_key'', JNum (Finite 1)), (''b'', JOther)])
     = Some [(''valid_key'', JNum (Finite 1))]"
  by (simp add: sanitizeParameters_def key_b key_valid obj_assign_def)

section \<open>Properties of the read tool\<close>






section \<open>Requests without an id\<close>

lemma ping_parsed:
  "parseJsonRpcRequest ping_without_id = Inr \<lparr> rpc_id = JNull, rpc_method = ''ping'', params = JUndefined \<rparr>"
  by (simp add: parseJsonRpcRequest_def ping_without_id_def getProp_def)

text \<open>
  C6. A request without an id is a notification and must get no response body. The
  endpoint answers \<open>ping\<close> without an id with status 200 and a success envelope that
  carries a result.
\<close>

theorem notification_gets_result_envelope:
  "isNotification \<lparr> rpc_id = JNull, rpc_method = ''ping'', params = JUndefined \<rparr> \<and>
   parseJsonRpcRequest ping_without_id = Inr \<lparr> rpc_id = JNull, rpc_method = ''ping'', params = JUndefined \<rparr> \<and>
   status (fst (handleMcpRequest (post_of ping_without_id) None default_config ''r-1''
                  Map.empty working_env blank_runtime [])) = 200 \<and>
   body (fst (handleMcpRequest (post_of ping_without_id) None default_config ''r-1''
                Map.empty working_env blank_runtime [])) = RpcSuccess JNull EmptyResult"
  by (simp add: ping_parsed isNotification_def handleMcpRequest_def post_of_def
      getRateLimitIdentifier_def checkRateLimit_def kv_get_def kv_put_def DEFAULT_CONFIG_def
      working_env_def getCurrentWindow_def getRateLimitKey_def routeRequest_def Let_def)

section \<open>Properties of encryption\<close>

lemma alphabet_distinct: "distinct b64_alphabet"
  by (simp add: b64_alphabet_def)

lemma alphabet_length: "length b64_alphabet = 64"
  by (simp add: b64_alphabet_def)

lemma b64_index_char: "n < 64 \<Longrightarrow> b64_index (b64_char n) = n"
proof -
  assume n: "n < 64"
  have "takeWhile (\<lambda>x. x \<noteq> b64_alphabet ! n) b64_alphabet = take n b64_alphabet"
  proof (rule takeWhile_eq_take_P_nth)
    fix i assume "i < n" "i < length b64_alphabet"
    then show "b64_alphabet ! i \<noteq> b64_alphabet ! n"
      using n alphabet_distinct alphabet_length by (simp add: nth_eq_iff_index_eq)
  next
    show "\<not> b64_alphabet ! n \<noteq> b64_alphabet ! n" by simp
  qed
  then show ?thesis using n alphabet_length by (simp add: b64_index_def b64_char_def)
qed

lemma b64_char_mem: "n < 64 \<Longrightarrow> b64_char n \<in> set b64_alphabet"
  using alphabet_length by (simp add: b64_char_def)

lemma alphabet_no_pad: "CHR ''='' \<notin> set b64_alphabet"
  by (simp add: b64_alphabet_def)

lemma alphabet_no_space: "\<forall>c \<in> set b64_alphabet. \<not> isAsciiWhitespace c"
  by (simp add: b64_alphabet_def isAsciiWhitespace_def)

lemma pad_no_space: "\<not> isAsciiWhitespace CHR ''=''"
  by (simp add: isAsciiWhitespace_def)




lemma sextets_back:
  fixes x y z :: nat
  assumes "x < 256" "y < 256" "z < 256"
  shows "(x div 4) * 4 + ((x mod 4) * 16 + y div 16) div 16 = x"
    and "(((x mod 4) * 16 + y div 16) mod 16) * 16 + ((y mod 16) * 4 + z div 64) div 4 = y"
    and "(((y mod 16) * 4 + z div 64) mod 4) * 64 + z mod 64 = z"
    and "(((x mod 4) * 16 + y div 16) mod 16) * 16 + ((y mod 16) * 4) div 4 = y"
    and "(x div 4) * 4 + ((x mod 4) * 16) div 16 = x"
proof -
  have hy: "y div 16 < 16" using assms(2) by (simp add: div_less_iff_less_mult)
  have hz: "z div 64 < 4" using assms(3) by (simp add: div_less_iff_less_mult)
  have a1: "((x mod 4) * 16 + y div 16) div 16 = x mod 4" using hy by simp
  have a2: "((x mod 4) * 16 + y div 16) mod 16 = y div 16" using hy by simp
  have a3: "((y mod 16) * 4 + z div 64) div 4 = y mod 16" using hz by simp
  have a4: "((y mod 16) * 4 + z div 64) mod 4 = z div 64" using hz by simp
  show "(x div 4) * 4 + ((x mod 4) * 16 + y div 16) div 16 = x" by (simp only: a1) simp
  show "(((x mod 4) * 16 + y div 16) mod 16) * 16 + ((y mod 16) * 4 + z div 64) div 4 = y"
    by (simp only: a2 a3) simp
  show "(((y mod 16) * 4 + z div 64) mod 4) * 64 + z mod 64 = z" by (simp only: a4) simp
  show "(((x mod 4) * 16 + y div 16) mod 16) * 16 + ((y mod 16) * 4) div 4 = y"
    by (simp only: a2) simp
  show "(x div 4) * 4 + ((x mod 4) * 16) div 16 = x" by simp
qed

lemma sextet_bounds:
  fixes x y z :: nat
  assumes "x < 256" "y < 256" "z < 256"
  shows "x div 4 < 64" "(x mod 4) * 16 + y div 16 < 64" "(y mod 16) * 4 + z div 64 < 64"
    "z mod 64 < 64" "(y mod 16) * 4 < 64" "(x mod 4) * 16 < 64"
proof -
  have hy: "y div 16 < 16" using assms(2) by (simp add: div_less_iff_less_mult)
  have hz: "z div 64 < 4" using assms(3) by (simp add: div_less_iff_less_mult)
  have mx: "x mod 4 < 4" and my: "y mod 16 < 16" by simp_all
  show "x div 4 < 64" using assms(1) by (simp add: div_less_iff_less_mult)
  show "(x mod 4) * 16 + y div 16 < 64" using hy mx by linarith
  show "(y mod 16) * 4 + z div 64 < 64" using hz my by linarith
  show "z mod 64 < 64" by simp
  show "(y mod 16) * 4 < 64" using my by linarith
  show "(x mod 4) * 16 < 64" using mx by linarith
qed


lemma decode_quad:
  fixes x y z :: nat
  assumes "x < 256" "y < 256" "z < 256"
  shows "b64_decode (b64_char (x div 4) # b64_char ((x mod 4) * 16 + y div 16) #
                     b64_char ((y mod 16) * 4 + z div 64) # b64_char (z mod 64) # rest)
         = char_of x # char_of y # char_of z # b64_decode rest"
proof -
  have i1: "b64_index (b64_char (x div 4)) = x div 4"
    by (rule b64_index_char [OF sextet_bounds(1) [OF assms]])
  have i2: "b64_index (b64_char ((x mod 4) * 16 + y div 16)) = (x mod 4) * 16 + y div 16"
    by (rule b64_index_char [OF sextet_bounds(2) [OF assms]])
  have i3: "b64_index (b64_char ((y mod 16) * 4 + z div 64)) = (y mod 16) * 4 + z div 64"
    by (rule b64_index_char [OF sextet_bounds(3) [OF assms]])
  have i4: "b64_index (b64_char (z mod 64)) = z mod 64"
    by (rule b64_index_char [OF sextet_bounds(4) [OF assms]])
  show ?thesis
    by (simp only: b64_decode.simps Let_def i1 i2 i3 i4 sextets_back [OF assms] append.simps)
qed

lemma decode_triple:
  fixes x y :: nat
  assumes "x < 256" "y < 256"
  shows "b64_decode [b64_char (x div 4), b64_char ((x mod 4) * 16 + y div 16),
                     b64_char ((y mod 16) * 4)]
         = [char_of x, char_of y]"
proof -
  have z: "(0::nat) < 256" by simp
  have i1: "b64_index (b64_char (x div 4)) = x div 4"
    by (rule b64_index_char [OF sextet_bounds(1) [OF assms z]])
  have i2: "b64_index (b64_char ((x mod 4) * 16 + y div 16)) = (x mod 4) * 16 + y div 16"
    by (rule b64_index_char [OF sextet_bounds(2) [OF assms z]])
  have i3: "b64_index (b64_char ((y mod 16) * 4)) = (y mod 16) * 4"
    by (rule b64_index_char [OF sextet_bounds(5) [OF assms z]])
  show ?thesis
    by (simp only: b64_decode.simps Let_def i1 i2 i3 sextets_back [OF assms z])
qed

lemma decode_pair:
  fixes x :: nat
  assumes "x < 256"
  shows "b64_decode [b64_char (x div 4), b64_char ((x mod 4) * 16)] = [char_of x]"
proof -
  have z: "(0::nat) < 256" by simp
  have i1: "b64_index (b64_char (x div 4)) = x div 4"
    by (rule b64_index_char [OF sextet_bounds(1) [OF assms z z]])
  have i2: "b64_index (b64_char ((x mod 4) * 16)) = (x mod 4) * 16"
    by (rule b64_index_char [OF sextet_bounds(6) [OF assms z z]])
  show ?thesis
    by (simp only: b64_decode.simps Let_def i1 i2 sextets_back [OF assms z z])
qed


lemma btoa_shape:
  "\<exists>core pad. btoa bs = core @ pad \<and> set core \<subseteq> set b64_alphabet \<and>
     (pad = [] \<or> pad = ''='' \<or> pad = ''=='') \<and> length (core @ pad) mod 4 = 0 \<and>
     length core mod 4 \<noteq> 1 \<and> b64_decode core = bs"
proof (induction bs rule: btoa.induct)
  case (1 a b c rest)
  from "1.IH" obtain core pad where ih: "btoa rest = core @ pad \<and> set core \<subseteq> set b64_alphabet \<and>
     (pad = [] \<or> pad = ''='' \<or> pad = ''=='') \<and> length (core @ pad) mod 4 = 0 \<and>
     length core mod 4 \<noteq> 1 \<and> b64_decode core = rest"
    by (elim exE) (rule that)
  note ih1 = ih [THEN conjunct1]
  note ih2 = ih [THEN conjunct2, THEN conjunct1]
  note ih3 = ih [THEN conjunct2, THEN conjunct2, THEN conjunct1]
  note ih4 = ih [THEN conjunct2, THEN conjunct2, THEN conjunct2, THEN conjunct1]
  note ih5 = ih [THEN conjunct2, THEN conjunct2, THEN conjunct2, THEN conjunct2, THEN conjunct1]
  note ih6 = ih [THEN conjunct2, THEN conjunct2, THEN conjunct2, THEN conjunct2, THEN conjunct2]
  define x y z where "x = (of_char a :: nat)" and "y = (of_char b :: nat)"
    and "z = (of_char c :: nat)"
  define q1 q2 q3 q4 where "q1 = b64_char (x div 4)"
    and "q2 = b64_char ((x mod 4) * 16 + y div 16)"
    and "q3 = b64_char ((y mod 16) * 4 + z div 64)" and "q4 = b64_char (z mod 64)"
  have b: "x < 256" "y < 256" "z < 256" by (simp_all add: x_def y_def z_def)
  have m: "q1 \<in> set b64_alphabet" "q2 \<in> set b64_alphabet" "q3 \<in> set b64_alphabet"
    "q4 \<in> set b64_alphabet"
    unfolding q1_def q2_def q3_def q4_def
    by (rule b64_char_mem, rule sextet_bounds [OF b])+
  have chars: "char_of x = a" "char_of y = b" "char_of z = c"
    by (simp_all add: x_def y_def z_def)
  have c6: "b64_decode (q1 # q2 # q3 # q4 # core) = a # b # c # rest"
    unfolding q1_def q2_def q3_def q4_def decode_quad [OF b] chars ih6 ..
  have c1: "btoa (a # b # c # rest) = (q1 # q2 # q3 # q4 # core) @ pad"
    unfolding btoa.simps Let_def ih1 q1_def q2_def q3_def q4_def x_def y_def z_def
    by (simp only: append.simps)
  have c2: "set (q1 # q2 # q3 # q4 # core) \<subseteq> set b64_alphabet" using m ih2 by simp
  have c4: "length ((q1 # q2 # q3 # q4 # core) @ pad) mod 4 = 0"
  proof -
    have e: "length ((q1 # q2 # q3 # q4 # core) @ pad) = length (core @ pad) + 4" by simp
    show ?thesis unfolding e using ih4 by simp
  qed
  have c5: "length (q1 # q2 # q3 # q4 # core) mod 4 \<noteq> 1"
  proof -
    have e: "length (q1 # q2 # q3 # q4 # core) = length core + 4" by simp
    show ?thesis unfolding e using ih5 by simp
  qed
  show ?case
    by (rule exI [of _ "q1 # q2 # q3 # q4 # core"], rule exI [of _ pad])
       (intro conjI c1 c2 ih3 c4 c5 c6)
next
  case (2 a b)
  define x y where "x = (of_char a :: nat)" and "y = (of_char b :: nat)"
  define q1 q2 q3 where "q1 = b64_char (x div 4)"
    and "q2 = b64_char ((x mod 4) * 16 + y div 16)" and "q3 = b64_char ((y mod 16) * 4)"
  have b: "x < 256" "y < 256" "(0::nat) < 256" by (simp_all add: x_def y_def)
  have m: "q1 \<in> set b64_alphabet" "q2 \<in> set b64_alphabet" "q3 \<in> set b64_alphabet"
    unfolding q1_def q2_def q3_def
    by (rule b64_char_mem, rule sextet_bounds [OF b])+
  have chars: "char_of x = a" "char_of y = b" by (simp_all add: x_def y_def)
  have c6: "b64_decode [q1, q2, q3] = [a, b]"
    unfolding q1_def q2_def q3_def decode_triple [OF b(1,2)] chars ..
  have c1: "btoa [a, b] = [q1, q2, q3] @ [CHR ''='']"
    unfolding btoa.simps Let_def q1_def q2_def q3_def x_def y_def
    by (simp only: append.simps)
  have c2: "set [q1, q2, q3] \<subseteq> set b64_alphabet" using m by simp
  have c3: "[CHR ''=''] = [] \<or> [CHR ''=''] = ''='' \<or> [CHR ''=''] = ''==''"
    by (rule disjI2, rule disjI1, rule refl)
  have c4: "length ([q1, q2, q3] @ [CHR ''='']) mod 4 = 0" by simp
  have c5: "length [q1, q2, q3] mod 4 \<noteq> 1" by simp
  show ?case
    by (rule exI [of _ "[q1, q2, q3]"], rule exI [of _ "[CHR ''='']"])
       (intro conjI c1 c2 c3 c4 c5 c6)
next
  case (3 a)
  define x where "x = (of_char a :: nat)"
  define q1 q2 where "q1 = b64_char (x div 4)" and "q2 = b64_char ((x mod 4) * 16)"
  have b: "x < 256" "(0::nat) < 256" "(0::nat) < 256" by (simp_all add: x_def)
  have m: "q1 \<in> set b64_alphabet" "q2 \<in> set b64_alphabet"
    unfolding q1_def q2_def
    by (rule b64_char_mem, rule sextet_bounds [OF b])+
  have chars: "char_of x = a" by (simp add: x_def)
  have c6: "b64_decode [q1, q2] = [a]"
    unfolding q1_def q2_def decode_pair [OF b(1)] chars ..
  have c1: "btoa [a] = [q1, q2] @ [CHR ''='', CHR ''='']"
    unfolding btoa.simps Let_def q1_def q2_def x_def
    by (simp only: append.simps)
  have c2: "set [q1, q2] \<subseteq> set b64_alphabet" using m by simp
  have c3: "[CHR ''='', CHR ''=''] = [] \<or> [CHR ''='', CHR ''=''] = ''=''
              \<or> [CHR ''='', CHR ''=''] = ''==''"
    by (rule disjI2, rule disjI2, rule refl)
  have c4: "length ([q1, q2] @ [CHR ''='', CHR ''='']) mod 4 = 0" by simp
  have c5: "length [q1, q2] mod 4 \<noteq> 1" by simp
  show ?case
    by (rule exI [of _ "[q1, q2]"], rule exI [of _ "[CHR ''='', CHR ''='']"])
       (intro conjI c1 c2 c3 c4 c5 c6)
next
  case 4
  show ?case by simp
qed


lemma core_last:
  assumes "set core \<subseteq> set b64_alphabet" and "core \<noteq> []"
  shows "last core \<noteq> CHR ''=''"
proof
  assume "last core = CHR ''=''"
  moreover have "last core \<in> set core" using assms(2) by simp
  ultimately have "CHR ''='' \<in> set b64_alphabet" using assms(1) by auto
  with alphabet_no_pad show False by simp
qed

lemma stripPadding_core:
  assumes a: "set core \<subseteq> set b64_alphabet"
    and p: "pad = [] \<or> pad = [CHR ''=''] \<or> pad = [CHR ''='', CHR ''='']"
    and l: "length (core @ pad) mod 4 = 0"
  shows "stripPadding (core @ pad) = core"
proof -
  from p consider "pad = []" | "pad = [CHR ''='']" | "pad = [CHR ''='', CHR ''='']" by blast
  then show ?thesis
  proof cases
    case 1
    show ?thesis
    proof (cases "core = []")
      case True
      with 1 show ?thesis by (simp add: stripPadding_def)
    next
      case False
      with core_last [OF a] 1 show ?thesis by (simp add: stripPadding_def)
    qed
  next
    case 2
    have ne: "core \<noteq> []"
    proof
      assume "core = []"
      with 2 l show False by simp
    qed
    have "last (core @ pad) = CHR ''=''" using 2 by simp
    moreover have "butlast (core @ pad) = core" using 2 by (simp add: butlast_append)
    moreover have "last core \<noteq> CHR ''=''" using core_last [OF a ne] .
    ultimately show ?thesis using 2 by (simp add: stripPadding_def)
  next
    case 3
    have "butlast (core @ pad) = core @ [CHR ''='']" using 3 by (simp add: butlast_append)
    moreover have "last (core @ pad) = CHR ''=''" using 3 by simp
    ultimately show ?thesis using 3 by (simp add: stripPadding_def)
  qed
qed

lemma atob_btoa: "atob (btoa bs) = Some bs"
proof -
  from btoa_shape [of bs] obtain core pad where sh: "btoa bs = core @ pad \<and>
     set core \<subseteq> set b64_alphabet \<and> (pad = [] \<or> pad = ''='' \<or> pad = ''=='') \<and>
     length (core @ pad) mod 4 = 0 \<and> length core mod 4 \<noteq> 1 \<and> b64_decode core = bs"
    by (elim exE) (rule that)
  note s1 = sh [THEN conjunct1]
  note s2 = sh [THEN conjunct2, THEN conjunct1]
  note s3 = sh [THEN conjunct2, THEN conjunct2, THEN conjunct1]
  note s4 = sh [THEN conjunct2, THEN conjunct2, THEN conjunct2, THEN conjunct1]
  note s5 = sh [THEN conjunct2, THEN conjunct2, THEN conjunct2, THEN conjunct2, THEN conjunct1]
  note s6 = sh [THEN conjunct2, THEN conjunct2, THEN conjunct2, THEN conjunct2, THEN conjunct2]
  have padset: "\<forall>c \<in> set pad. \<not> isAsciiWhitespace c"
    using s3 pad_no_space by auto
  have coreset: "\<forall>c \<in> set core. \<not> isAsciiWhitespace c"
    using s2 alphabet_no_space by auto
  have f: "filter (\<lambda>c. \<not> isAsciiWhitespace c) (core @ pad) = core @ pad"
    using padset coreset by (simp add: filter_id_conv)
  have st: "stripPadding (core @ pad) = core"
    using stripPadding_core [OF s2 _ s4] s3 by simp
  have ok: "\<not> (\<exists>c \<in> set core. c \<notin> set b64_alphabet)" using s2 by auto
  show ?thesis
    unfolding atob_def s1 f Let_def using s4 s5 s6 st ok by simp
qed

lemma deriveKey_ok:
  assumes "atob K = Some kd" and "\<forall>b. length (sha256 plat b) = 32"
  shows "\<exists>key. deriveKey plat K = Inr key"
  using assms by (simp add: deriveKey_def importKey_def)

text \<open>
  C3, as stated, fails: a key that is not Base64 text makes \<open>atob\<close> throw inside
  \<open>deriveKey\<close>, so \<open>encrypt\<close> throws and there is nothing to decrypt.
\<close>

theorem encrypt_counterexample:
  "encrypt plain_platform ''Hello, World!'' ''wrong-encryption-key-for-testing''
     (replicate 12 (CHR 0x00)) = Inl InvalidCharacterError"
proof -
  have "atob ''wrong-encryption-key-for-testing'' = None" by code_simp
  then show ?thesis by (simp add: encrypt_def deriveKey_def)
qed

text \<open>
  C3, amended. For every key \<open>K\<close> that \<open>atob\<close> accepts and every plaintext \<open>P\<close> that the
  text codec gives back unchanged, on a platform whose digest has 32 bytes and whose
  AES-GCM decryption inverts encryption under the same key and initialisation vector:
  \<open>encrypt(P, K)\<close> returns a value, and \<open>decrypt\<close> of that value under \<open>K\<close> returns \<open>P\<close>.
\<close>

theorem decrypt_encrypt:
  assumes key: "atob K = Some kd"
    and digest: "\<forall>b. length (sha256 plat b) = 32"
    and cipher: "\<forall>k n bytes. aesGcmDecrypt plat k n (aesGcmEncrypt plat k n bytes) = Some bytes"
    and codec: "textDecode plat (textEncode plat P) = P"
  shows "\<exists>E. encrypt plat P K ivBytes = Inr E \<and> decrypt plat E K = Inr P"
proof -
  from deriveKey_ok [OF key digest] obtain k where k: "deriveKey plat K = Inr k" ..
  let ?E = "\<lparr> ciphertext = btoa (aesGcmEncrypt plat k ivBytes (textEncode plat P)),
              iv = btoa ivBytes \<rparr>"
  have e: "encrypt plat P K ivBytes = Inr ?E" using k by (simp add: encrypt_def Let_def)
  have "decrypt plat ?E K = Inr P"
    using k cipher codec by (simp add: decrypt_def atob_btoa)
  with e show ?thesis by (intro exI [of _ ?E] conjI)
qed

theorem decrypt_encrypt_witness:
  "\<exists>E. encrypt plain_platform ''Hello, World!'' ''dGVzdC1lbmNyeXB0aW9uLWtleS0zMi1ieXRlcw==''
          (replicate 12 (CHR 0x00)) = Inr E \<and>
        decrypt plain_platform E ''dGVzdC1lbmNyeXB0aW9uLWtleS0zMi1ieXRlcw=='' = Inr ''Hello, World!''"
proof -
  have key: "atob ''dGVzdC1lbmNyeXB0aW9uLWtleS0zMi1ieXRlcw=='' = Some ''test-encryption-key-32-bytes''"
    by code_simp
  show ?thesis
    by (rule decrypt_encrypt [OF key]) (simp_all add: plain_platform_def)
qed

section \<open>Texts that the patterns do not recognise\<close>

text \<open>
  The write patterns of \<open>isWriteQuery\<close> ask for white space after the keyword. The text
  \<open>CREATE(n) RETURN n\<close> passes the validator (which classifies it as a write), passes
  the syntax check and is not recognised by \<open>isWriteQuery\<close>: the read tool hands it to
  the client.
\<close>

lemma unspaced_strip: "removeComments ''CREATE(n) RETURN n'' = ''CREATE(n) RETURN n''"
  by code_simp

lemma unspaced_clean:
  "find (\<lambda>(pattern, message). rx_test flags_i pattern ''CREATE(n) RETURN n'')
     DANGEROUS_OPERATIONS = None"
  by code_simp

lemma unspaced_trim: "trim ''CREATE(n) RETURN n'' \<noteq> []"
  by code_simp

lemma unspaced_len: "\<not> length ''CREATE(n) RETURN n'' > MAX_QUERY_LENGTH"
  by (simp add: MAX_QUERY_LENGTH_def)

lemma unspaced_valid: "valid (validateQuery ''CREATE(n) RETURN n'')"
  unfolding validateQuery_def Let_def unspaced_strip unspaced_clean
  using unspaced_trim unspaced_len by simp

lemma unspaced_syntax: "valid (validateCypherSyntax ''CREATE(n) RETURN n'')"
  by code_simp

lemma unspaced_not_write: "\<not> isWriteQuery ''CREATE(n) RETURN n''"
  by code_simp

lemma unspaced_is_write_construct: "containsWriteOperations ''CREATE(n) RETURN n''"
  by code_simp

lemma read_tool_sends_unspaced_create:
  "snd (handleToolsCall (read_call [(''query'', JStr ''CREATE(n) RETURN n'')])
          (anonymous_context\<lparr>neo4jClient := Some silent_client\<rparr>) blank_runtime [])
     = [(''CREATE(n) RETURN n'', None)]"
  by (simp add: handleToolsCall_def read_call_def validateToolCallParams_def falsy_def
      propOf_def getProp_def toolExists_def TOOL_READ_CYPHER_def TOOL_GET_SCHEMA_def
      TOOL_WRITE_CYPHER_def executeReadCypher_def getOptionalObjectParam_def
      unspaced_valid unspaced_syntax unspaced_not_write sanitizeParameters_def
      executeReadQuery_def anonymous_context_def silent_client_def Let_def)

text \<open>
  The pattern for \<open>LOAD CSV\<close> asks for \<open>FROM\<close> right after \<open>CSV\<close>: with \<open>WITH HEADERS\<close> in
  between, a load from a remote address is accepted. (The comment pattern also cuts the
  text at the \<open>//\<close> of the address.)
\<close>

lemma headers_strip:
  "removeComments ''LOAD CSV WITH HEADERS FROM 'https://e.io/x' AS r RETURN r''
     = ''LOAD CSV WITH HEADERS FROM 'https:''"
  by code_simp

lemma headers_clean:
  "find (\<lambda>(pattern, message). rx_test flags_i pattern ''LOAD CSV WITH HEADERS FROM 'https:'')
     DANGEROUS_OPERATIONS = None"
  by code_simp

lemma headers_trim: "trim ''LOAD CSV WITH HEADERS FROM 'https://e.io/x' AS r RETURN r'' \<noteq> []"
  by code_simp

lemma headers_len:
  "\<not> length ''LOAD CSV WITH HEADERS FROM 'https://e.io/x' AS r RETURN r'' > MAX_QUERY_LENGTH"
  by (simp add: MAX_QUERY_LENGTH_def)

lemma load_csv_with_headers_accepted:
  "valid (validateQuery ''LOAD CSV WITH HEADERS FROM 'https://e.io/x' AS r RETURN r'')"
  unfolding validateQuery_def Let_def headers_strip headers_clean
  using headers_trim headers_len by simp

end
